theory Spec2Isabelle
  imports Main
begin

section \<open>The icon script \<^verbatim>\<open>scripts/create-icon.py\<close>\<close>

text \<open>
  The script opens a PNG with Pillow, normalises it to RGBA, resizes it to six fixed
  sizes and asks Pillow to write them as one ICO file. Pillow, \<^verbatim>\<open>pathlib\<close> and the
  filesystem and the standard output are not part of the repository: they enter the
  model as parameters (records of functions), and every theorem holds for every such
  library, filesystem and output stream. What the
  script itself does (the order of the calls, their arguments, the text it prints,
  the value it returns, the exit code) is modelled statement by statement.
\<close>

subsection \<open>Python values\<close>

text \<open>
  An exception is either an instance of \<^verbatim>\<open>Exception\<close> (which the clause
  \<^verbatim>\<open>except Exception as e\<close> catches) or an instance of \<^verbatim>\<open>BaseException\<close> outside
  \<^verbatim>\<open>Exception\<close>, such as \<^verbatim>\<open>KeyboardInterrupt\<close> (which it does not catch). The string
  is \<^verbatim>\<open>str(e)\<close>. A call that may raise returns \<open>exn + 'a\<close>, \<open>Inl\<close> the exception.
\<close>

datatype exn = Exc string | NonExc string

text \<open>
  Strings are byte strings here: a character outside ASCII stands as its UTF-8 bytes.
\<close>

definition check_mark :: string where
  "check_mark = [CHR 0xE2, CHR 0x9C, CHR 0x85]"

definition cross_mark :: string where
  "cross_mark = [CHR 0xE2, CHR 0x9D, CHR 0x8C]"

definition palette :: string where
  "palette = [CHR 0xF0, CHR 0x9F, CHR 0x8E, CHR 0xA8]"

definition digit_char :: "nat \<Rightarrow> char" where
  "digit_char d = ''0123456789'' ! d"

text \<open>\<^verbatim>\<open>str(n)\<close> of a Python int: decimal digits, a minus sign when negative.\<close>

fun str_nat :: "nat \<Rightarrow> string" where
  "str_nat n = (if n < 10 then [digit_char n] else str_nat (n div 10) @ [digit_char (n mod 10)])"

declare str_nat.simps [simp del]

definition str_int :: "int \<Rightarrow> string" where
  "str_int i = (if i < 0 then ''-'' @ str_nat (nat (- i)) else str_nat (nat i))"

text \<open>\<^verbatim>\<open>sep.join(xs)\<close>.\<close>

fun join :: "string \<Rightarrow> string list \<Rightarrow> string" where
  "join sep [] = []"
| "join sep [x] = x"
| "join sep (x # y # ys) = x @ sep @ join sep (y # ys)"

text \<open>
  \<^verbatim>\<open>f"{st_size / 1024:.1f}"\<close>: the quotient by a power of two is exact in binary
  floating point for every file size below \<open>2 ^ 53\<close>, and the format rounds the exact
  value to one decimal, ties to the even digit. In integers: the number of tenths.
\<close>

definition format_kb :: "nat \<Rightarrow> string" where
  "format_kb st_size =
     (let q = (10 * st_size) div 1024;
          r = (10 * st_size) mod 1024;
          t = (if 512 < r then q + 1 else if r = 512 \<and> q mod 2 = 1 then q + 1 else q)
      in str_nat (t div 10) @ ''.'' @ str_nat (t mod 10))"

subsection \<open>The world outside the script\<close>

text \<open>\<^verbatim>\<open>Image.Resampling\<close>, Pillow's enumeration of filters.\<close>

datatype resampling = NEAREST | BOX | BILINEAR | HAMMING | BICUBIC | LANCZOS

text \<open>
  Pillow, as far as the script uses it. \<open>'fs\<close> is the state of the filesystem and
  \<open>'img\<close> an image object. \<open>Image_save\<close> is
  \<^verbatim>\<open>img.save(path, format=..., sizes=..., append_images=...)\<close>; it returns the new
  filesystem also when it raises, since a failed write may leave a file behind.
  \<open>Image_size\<close> is the attribute \<^verbatim>\<open>img.size\<close>, which the script never reads.
\<close>

record ('fs, 'img) pil =
  Image_open :: "'fs \<Rightarrow> string \<Rightarrow> exn + 'img"
  Image_mode :: "'img \<Rightarrow> string"
  Image_size :: "'img \<Rightarrow> int \<times> int"
  Image_convert :: "'img \<Rightarrow> string \<Rightarrow> exn + 'img"
  Image_resize :: "'img \<Rightarrow> int \<times> int \<Rightarrow> resampling \<Rightarrow> exn + 'img"
  Image_save :: "'fs \<Rightarrow> 'img \<Rightarrow> string \<Rightarrow> string \<Rightarrow> (int \<times> int) list \<Rightarrow> 'img list
                 \<Rightarrow> (exn + unit) \<times> 'fs"

text \<open>
  \<^verbatim>\<open>pathlib\<close>, as far as the script uses it: \<open>Path\<close> is the constructor,
  \<open>Path_joinpath\<close> the operator \<^verbatim>\<open>/\<close>, \<open>Path_str\<close> is \<^verbatim>\<open>str(p)\<close> and
  \<open>Path_stat_st_size\<close> is \<^verbatim>\<open>p.stat().st_size\<close>. \<open>Path_exists\<close> is \<^verbatim>\<open>p.exists()\<close>,
  which answers or, for an \<^verbatim>\<open>OSError\<close> other than the few it takes as absence
  (a name too long, a permission denied), raises.
\<close>

record ('fs, 'path) pathlib =
  Path :: "string \<Rightarrow> 'path"
  Path_parent :: "'path \<Rightarrow> 'path"
  Path_joinpath :: "'path \<Rightarrow> string \<Rightarrow> 'path"
  Path_str :: "'path \<Rightarrow> string"
  Path_exists :: "'fs \<Rightarrow> 'path \<Rightarrow> exn + bool"
  Path_stat_st_size :: "'fs \<Rightarrow> 'path \<Rightarrow> exn + nat"

text \<open>
  \<^verbatim>\<open>sys.stdout\<close>, as far as \<^verbatim>\<open>print\<close> uses it: \<open>stdout_error S out s\<close> is the
  exception that writing the string \<open>s\<close> raises on a stream that has taken the strings
  \<open>out\<close> so far (\<^verbatim>\<open>UnicodeEncodeError\<close> when the encoding of the stream lacks a
  character of \<open>s\<close>, \<^verbatim>\<open>OSError\<close> on a closed pipe), \<open>None\<close> when the string is
  written.
\<close>

record sys =
  stdout_error :: "string list \<Rightarrow> string \<Rightarrow> exn option"

text \<open>
  The calls the script makes into the two libraries, with their arguments. The list
  \<open>calls\<close> of the world records them in order; no statement of the script reads it.
\<close>

datatype ('img, 'path) call =
    is_Exists: Exists 'path
  | is_Open: Open string
  | is_Convert: Convert 'img string
  | is_Resize: Resize 'img "int \<times> int" resampling
  | is_Save: Save 'img string string "(int \<times> int) list" "'img list"
  | is_Stat: Stat 'path

record ('fs, 'img, 'path) world =
  files :: 'fs
  stdout :: "string list"
  calls :: "('img, 'path) call list"

text \<open>
  \<^verbatim>\<open>print(s)\<close>: one entry of \<open>stdout\<close> for each call of \<^verbatim>\<open>print\<close> that returns; a
  call that raises writes nothing.
\<close>

definition print ::
  "sys \<Rightarrow> string \<Rightarrow> ('fs, 'img, 'path) world \<Rightarrow> (exn + unit) \<times> ('fs, 'img, 'path) world" where
  "print S s w =
     (case stdout_error S (stdout w) s of
        Some e \<Rightarrow> (Inl e, w)
      | None \<Rightarrow> (Inr (), w\<lparr>stdout := stdout w @ [s]\<rparr>))"

text \<open>Consecutive \<^verbatim>\<open>print\<close> statements: the first that raises ends them.\<close>

fun prints ::
  "sys \<Rightarrow> string list \<Rightarrow> ('fs, 'img, 'path) world \<Rightarrow> (exn + unit) \<times> ('fs, 'img, 'path) world" where
  "prints S [] w = (Inr (), w)"
| "prints S (s # ss) w =
     (case print S s w of
        (Inl e, w') \<Rightarrow> (Inl e, w')
      | (Inr _, w') \<Rightarrow> prints S ss w')"

definition called :: "('img, 'path) call \<Rightarrow> ('fs, 'img, 'path) world \<Rightarrow> ('fs, 'img, 'path) world" where
  "called c w = w\<lparr>calls := calls w @ [c]\<rparr>"

subsection \<open>\<^verbatim>\<open>create_icon\<close>\<close>

text \<open>Line 21: the icon sizes, a local constant of \<^verbatim>\<open>create_icon\<close>.\<close>

definition sizes :: "(int \<times> int) list" where
  "sizes = [(256, 256), (128, 128), (64, 64), (48, 48), (32, 32), (16, 16)]"

text \<open>
  Lines 33 to 35: the loop over \<open>sizes\<close>. Every pass resizes the same \<open>img\<close> and
  appends the result to \<open>icon_images\<close>; an exception leaves the loop.
\<close>

fun resize_loop ::
  "('fs, 'img) pil \<Rightarrow> 'img \<Rightarrow> (int \<times> int) list \<Rightarrow> 'img list \<Rightarrow> ('fs, 'img, 'path) world
   \<Rightarrow> (exn + 'img list) \<times> ('fs, 'img, 'path) world" where
  "resize_loop L img [] icon_images w = (Inr icon_images, w)"
| "resize_loop L img (sz # rest) icon_images w =
     (let w' = called (Resize img sz LANCZOS) w in
      case Image_resize L img sz LANCZOS of
        Inl e \<Rightarrow> (Inl e, w')
      | Inr resized \<Rightarrow> resize_loop L img rest (icon_images @ [resized]) w')"

text \<open>Lines 45, 46 and 50: the three lines printed after the file is written.\<close>

definition created_line :: "string \<Rightarrow> string" where
  "created_line ico_path = check_mark @ '' Icon created successfully: '' @ ico_path"

definition sizes_line :: string where
  "sizes_line =
     ''   Sizes included: '' @ join '', '' (map (\<lambda>(w, h). str_int w @ ''x'' @ str_int h) sizes)"

definition file_size_line :: "nat \<Rightarrow> string" where
  "file_size_line st_size = ''   File size: '' @ format_kb st_size @ '' KB''"

text \<open>Line 55: the line printed by the handler.\<close>

definition error_line :: "string \<Rightarrow> string" where
  "error_line e = cross_mark @ '' Error creating icon: '' @ e"

text \<open>
  Lines 24 to 52, the body of \<^verbatim>\<open>try\<close>. \<^verbatim>\<open>icon_images[0]\<close> raises \<^verbatim>\<open>IndexError\<close>
  on an empty list.
\<close>

definition create_icon_try ::
  "sys \<Rightarrow> ('fs, 'img) pil \<Rightarrow> ('fs, 'path) pathlib \<Rightarrow> string \<Rightarrow> string
   \<Rightarrow> ('fs, 'img, 'path) world \<Rightarrow> (exn + bool) \<times> ('fs, 'img, 'path) world" where
  "create_icon_try S L P png_path ico_path w0 =
     (let w1 = called (Open png_path) w0 in
      case Image_open L (files w1) png_path of
        Inl e \<Rightarrow> (Inl e, w1)
      | Inr img0 \<Rightarrow>
          let (r, w2) =
                (if Image_mode L img0 \<noteq> ''RGBA''
                 then (Image_convert L img0 ''RGBA'', called (Convert img0 ''RGBA'') w1)
                 else (Inr img0, w1))
          in case r of
               Inl e \<Rightarrow> (Inl e, w2)
             | Inr img \<Rightarrow>
                 (case resize_loop L img sizes [] w2 of
                    (Inl e, w3) \<Rightarrow> (Inl e, w3)
                  | (Inr icon_images, w3) \<Rightarrow>
                      (case icon_images of
                         [] \<Rightarrow> (Inl (Exc ''list index out of range''), w3)
                       | first # others \<Rightarrow>
                           let w4 = called (Save first ico_path ''ICO'' sizes others) w3 in
                           case Image_save L (files w4) first ico_path ''ICO'' sizes others of
                             (Inl e, fs) \<Rightarrow> (Inl e, w4\<lparr>files := fs\<rparr>)
                           | (Inr _, fs) \<Rightarrow>
                               (case prints S [created_line ico_path, sizes_line]
                                       (w4\<lparr>files := fs\<rparr>) of
                                  (Inl e, w6) \<Rightarrow> (Inl e, w6)
                                | (Inr _, w6) \<Rightarrow>
                                    let w7 = called (Stat (Path P ico_path)) w6 in
                                    case Path_stat_st_size P (files w7) (Path P ico_path) of
                                      Inl e \<Rightarrow> (Inl e, w7)
                                    | Inr st_size \<Rightarrow>
                                        (case print S (file_size_line st_size) w7 of
                                           (Inl e, w8) \<Rightarrow> (Inl e, w8)
                                         | (Inr _, w8) \<Rightarrow> (Inr True, w8))))))"

text \<open>
  Lines 23 to 56: \<^verbatim>\<open>except Exception as e\<close> prints the line and returns \<^verbatim>\<open>False\<close>;
  any other exception goes on to the caller, and so does an exception that the
  handler's own \<^verbatim>\<open>print\<close> raises.
\<close>

definition create_icon ::
  "sys \<Rightarrow> ('fs, 'img) pil \<Rightarrow> ('fs, 'path) pathlib \<Rightarrow> string \<Rightarrow> string
   \<Rightarrow> ('fs, 'img, 'path) world \<Rightarrow> (exn + bool) \<times> ('fs, 'img, 'path) world" where
  "create_icon S L P png_path ico_path w =
     (case create_icon_try S L P png_path ico_path w of
        (Inl (Exc e), w') \<Rightarrow>
          (case print S (error_line e) w' of
             (Inl e', w'') \<Rightarrow> (Inl e', w'')
           | (Inr _, w'') \<Rightarrow> (Inr False, w''))
      | (Inl (NonExc e), w') \<Rightarrow> (Inl (NonExc e), w')
      | (Inr b, w') \<Rightarrow> (Inr b, w'))"

subsection \<open>\<^verbatim>\<open>main\<close> and the script\<close>

text \<open>
  How the process ends: \<^verbatim>\<open>sys.exit(n)\<close>, or an exception nobody caught.
\<close>

datatype outcome = Exit int | Uncaught exn


text \<open>
  Lines 60 to 68: the two paths. \<open>file\<close> is \<^verbatim>\<open>__file__\<close> and \<open>argv\<close> is
  \<^verbatim>\<open>sys.argv\<close>, the script's name first.
\<close>

definition default_png_path :: "('fs, 'path) pathlib \<Rightarrow> string \<Rightarrow> 'path" where
  "default_png_path P file =
     (let project_root = Path_parent P (Path_parent P (Path P file))
      in Path_joinpath P (Path_joinpath P project_root ''assets'') ''app-logo-color.png'')"

definition default_ico_path :: "('fs, 'path) pathlib \<Rightarrow> string \<Rightarrow> 'path" where
  "default_ico_path P file =
     (let project_root = Path_parent P (Path_parent P (Path P file))
      in Path_joinpath P (Path_joinpath P project_root ''assets'') ''app-icon.ico'')"

definition main_paths :: "('fs, 'path) pathlib \<Rightarrow> string \<Rightarrow> string list \<Rightarrow> 'path \<times> 'path" where
  "main_paths P file argv =
     (let png_path = default_png_path P file;
          ico_path = default_ico_path P file;
          png_path = (if length argv > 1 then Path P (argv ! 1) else png_path);
          ico_path = (if length argv > 2 then Path P (argv ! 2) else ico_path)
      in (png_path, ico_path))"

text \<open>Lines 72, 73 and 77 to 80: what \<^verbatim>\<open>main\<close> prints.\<close>

definition not_found_line :: "string \<Rightarrow> string" where
  "not_found_line png = cross_mark @ '' Error: PNG file not found: '' @ png"

definition usage_line :: string where
  "usage_line = CHR 0x0A # ''Usage: python create-icon.py [input.png] [output.ico]''"

definition banner :: "string \<Rightarrow> string \<Rightarrow> string list" where
  "banner png ico =
     [palette @ '' Creating Windows icon...'', ''   Source: '' @ png, ''   Output: '' @ ico, '''']"

text \<open>
  Lines 58 to 85. Nothing in \<^verbatim>\<open>main\<close> catches an exception: one raised by
  \<^verbatim>\<open>exists\<close>, by a \<^verbatim>\<open>print\<close> or, past its handler, by \<^verbatim>\<open>create_icon\<close> ends the
  process.
\<close>

definition main ::
  "sys \<Rightarrow> ('fs, 'img) pil \<Rightarrow> ('fs, 'path) pathlib \<Rightarrow> string \<Rightarrow> string list
   \<Rightarrow> ('fs, 'img, 'path) world \<Rightarrow> outcome \<times> ('fs, 'img, 'path) world" where
  "main S L P file argv w0 =
     (let (png_path, ico_path) = main_paths P file argv;
          w1 = called (Exists png_path) w0
      in case Path_exists P (files w1) png_path of
           Inl e \<Rightarrow> (Uncaught e, w1)
         | Inr found \<Rightarrow>
             if \<not> found
             then (case prints S [not_found_line (Path_str P png_path), usage_line] w1 of
                     (Inl e, w2) \<Rightarrow> (Uncaught e, w2)
                   | (Inr _, w2) \<Rightarrow> (Exit 1, w2))
             else
               (case prints S (banner (Path_str P png_path) (Path_str P ico_path)) w1 of
                  (Inl e, w2) \<Rightarrow> (Uncaught e, w2)
                | (Inr _, w2) \<Rightarrow>
                    (case create_icon S L P (Path_str P png_path) (Path_str P ico_path) w2 of
                       (Inr True, w3) \<Rightarrow> (Exit 0, w3)
                     | (Inr False, w3) \<Rightarrow> (Exit 1, w3)
                     | (Inl e, w3) \<Rightarrow> (Uncaught e, w3))))"

text \<open>
  Lines 10 to 15 and 87, 88: the script run as a program. \<open>None\<close> for the library is
  \<^verbatim>\<open>from PIL import Image\<close> raising \<^verbatim>\<open>ImportError\<close>.
\<close>

definition script ::
  "sys \<Rightarrow> ('fs, 'img) pil option \<Rightarrow> ('fs, 'path) pathlib \<Rightarrow> string \<Rightarrow> string list
   \<Rightarrow> ('fs, 'img, 'path) world \<Rightarrow> outcome \<times> ('fs, 'img, 'path) world" where
  "script S pillow P file argv w =
     (case pillow of
        None \<Rightarrow>
          (case prints S [''Error: Pillow library not found'',
                          ''Install with: pip install Pillow''] w of
             (Inl e, w') \<Rightarrow> (Uncaught e, w')
           | (Inr _, w') \<Rightarrow> (Exit 1, w'))
      | Some L \<Rightarrow> main S L P file argv w)"

subsection \<open>A small instance of the libraries\<close>

text \<open>
  A concrete filesystem, Pillow, \<^verbatim>\<open>pathlib\<close> and standard output on which the script
  can be run: a file is its path and its size in bytes, a picture its mode and its size
  in pixels, a path a string with \<^verbatim>\<open>/\<close> between its parts. A file of no bytes is
  not an image. \<open>demo_pil k bad\<close> writes \<open>k\<close> bytes for every image it stores, and its
  \<open>save\<close> raises \<open>bad\<close> when that is given. \<open>lazy_pil\<close> opens every file that is there
  and finds the bad data only when the pixels are needed, in \<^verbatim>\<open>convert\<close>. \<open>exists\<close>
  raises on a name of more than 255 characters. \<open>utf8_sys\<close> writes every string;
  \<open>ascii_sys\<close> is a stream with the ASCII encoding, on which a string with any other
  character raises.
\<close>

type_synonym demo_fs = "(string \<times> nat) list"

datatype picture = Picture string "int \<times> int"

fun picture_mode :: "picture \<Rightarrow> string" where
  "picture_mode (Picture m s) = m"

fun picture_size :: "picture \<Rightarrow> int \<times> int" where
  "picture_size (Picture m s) = s"

definition demo_pil :: "nat \<Rightarrow> string option \<Rightarrow> (demo_fs, picture) pil" where
  "demo_pil k bad =
     \<lparr> Image_open = (\<lambda>fs p.
         case map_of fs p of
           None \<Rightarrow> Inl (Exc ''No such file or directory'')
         | Some n \<Rightarrow>
             if n = 0 then Inl (Exc ''cannot identify image file'')
             else Inr (Picture ''RGB'' (512, 512))),
       Image_mode = picture_mode,
       Image_size = picture_size,
       Image_convert = (\<lambda>img m. Inr (Picture m (picture_size img))),
       Image_resize = (\<lambda>img sz f. Inr (Picture (picture_mode img) sz)),
       Image_save = (\<lambda>fs img p fmt szs more.
         case bad of
           Some e \<Rightarrow> (Inl (Exc e), fs)
         | None \<Rightarrow> (Inr (), (p, k * length (img # more)) # fs)) \<rparr>"

definition demo_parent :: "string \<Rightarrow> string" where
  "demo_parent p = rev (drop 1 (dropWhile (\<lambda>c. c \<noteq> CHR ''/'') (rev p)))"

definition demo_pathlib :: "(demo_fs, string) pathlib" where
  "demo_pathlib =
     \<lparr> Path = (\<lambda>s. s),
       Path_parent = demo_parent,
       Path_joinpath = (\<lambda>d n. d @ ''/'' @ n),
       Path_str = (\<lambda>p. p),
       Path_exists = (\<lambda>fs p.
         if 255 < length p then Inl (Exc ''File name too long'')
         else Inr (map_of fs p \<noteq> None)),
       Path_stat_st_size = (\<lambda>fs p.
         case map_of fs p of
           None \<Rightarrow> Inl (Exc ''No such file or directory'')
         | Some n \<Rightarrow> Inr n) \<rparr>"

definition demo_world :: "(demo_fs, picture, string) world" where
  "demo_world =
     \<lparr> files = [(''/repo/assets/app-logo-color.png'', 2048), (''logo.png'', 2048), (''corrupt.png'', 0)],
       stdout = [],
       calls = [] \<rparr>"

definition lazy_pil :: "(demo_fs, picture) pil" where
  "lazy_pil =
     (demo_pil 1024 None)
       \<lparr> Image_open := (\<lambda>fs p.
           case map_of fs p of
             None \<Rightarrow> Inl (Exc ''No such file or directory'')
           | Some n \<Rightarrow> Inr (Picture ''RGB'' (512, 512))),
         Image_convert := (\<lambda>img m. Inl (Exc ''image file is truncated'')) \<rparr>"

definition utf8_sys :: sys where
  "utf8_sys = \<lparr> stdout_error = (\<lambda>out s. None) \<rparr>"

definition ascii_sys :: sys where
  "ascii_sys =
     \<lparr> stdout_error = (\<lambda>out s.
         if list_ex (\<lambda>c. 128 \<le> (of_char c :: nat)) s
         then Some (Exc ''ordinal not in range(128)'')
         else None) \<rparr>"

section \<open>Properties\<close>

subsection \<open>Printing, the loop and the body of \<^verbatim>\<open>try\<close>\<close>

lemma called_sel [simp]:
  "files (called c w) = files w" "stdout (called c w) = stdout w" "calls (called c w) = calls w @ [c]"
  by (simp_all add: called_def)


lemma print_Inl:
  "print S s w = (Inl e, w') \<Longrightarrow> stdout_error S (stdout w) s = Some e \<and> w' = w"
  by (auto simp: print_def split: option.splits)

lemma print_ok:
  "stdout_error S (stdout w) s = None \<Longrightarrow> print S s w = (Inr (), w\<lparr>stdout := stdout w @ [s]\<rparr>)"
  by (simp add: print_def)

lemma print_fail:
  "stdout_error S (stdout w) s = Some e \<Longrightarrow> print S s w = (Inl e, w)"
  by (simp add: print_def)

lemma print_sel [simp]:
  "files (snd (print S s w)) = files w" "calls (snd (print S s w)) = calls w"
  by (simp_all add: print_def split: option.splits)




lemma prints_two:
  "prints S [a, b] w =
     (case stdout_error S (stdout w) a of
        Some e \<Rightarrow> (Inl e, w)
      | None \<Rightarrow>
          (case stdout_error S (stdout w @ [a]) b of
             Some e \<Rightarrow> (Inl e, w\<lparr>stdout := stdout w @ [a]\<rparr>)
           | None \<Rightarrow> (Inr (), w\<lparr>stdout := stdout w @ [a, b]\<rparr>)))"
  by (simp add: print_def split: option.splits)

lemma resize_loop_Inr:
  "resize_loop L img szs acc w = (Inr vs, w') \<Longrightarrow>
     \<exists>rs. vs = acc @ rs
        \<and> map (\<lambda>sz. Image_resize L img sz LANCZOS) szs = map Inr rs
        \<and> w' = w\<lparr>calls := calls w @ map (\<lambda>sz. Resize img sz LANCZOS) szs\<rparr>"
proof (induction szs arbitrary: acc w)
  case Nil
  then show ?case by simp
next
  case (Cons sz szs)
  from Cons.prems obtain r where r: "Image_resize L img sz LANCZOS = Inr r"
    and rest: "resize_loop L img szs (acc @ [r]) (called (Resize img sz LANCZOS) w) = (Inr vs, w')"
    by (auto simp: Let_def split: sum.splits)
  from Cons.IH [OF rest] obtain rs where
    "vs = (acc @ [r]) @ rs"
    "map (\<lambda>sz. Image_resize L img sz LANCZOS) szs = map Inr rs"
    "w' = (called (Resize img sz LANCZOS) w)
            \<lparr>calls := calls (called (Resize img sz LANCZOS) w) @ map (\<lambda>sz. Resize img sz LANCZOS) szs\<rparr>"
    by blast
  with r show ?case
    by (intro exI [of _ "r # rs"]) (simp add: called_def)
qed

lemma resize_loop_ok:
  "map (\<lambda>sz. Image_resize L img sz LANCZOS) szs = map Inr rs \<Longrightarrow>
   resize_loop L img szs acc w =
     (Inr (acc @ rs), w\<lparr>calls := calls w @ map (\<lambda>sz. Resize img sz LANCZOS) szs\<rparr>)"
proof (induction szs arbitrary: acc w rs)
  case Nil
  then show ?case by simp
next
  case (Cons sz szs)
  then obtain r rs' where rs: "rs = r # rs'" and r: "Image_resize L img sz LANCZOS = Inr r"
    and rest: "map (\<lambda>sz. Image_resize L img sz LANCZOS) szs = map Inr rs'"
    by (cases rs) auto
  show ?case
    by (simp add: r rs Cons.IH [OF rest] called_def)
qed

lemma resize_loop_Inl:
  "resize_loop L img szs acc w = (Inl e, w') \<Longrightarrow>
     files w' = files w \<and> stdout w' = stdout w
     \<and> (\<exists>k < length szs. Image_resize L img (szs ! k) LANCZOS = Inl e
            \<and> calls w' = calls w @ map (\<lambda>sz. Resize img sz LANCZOS) (take (Suc k) szs))"
proof (induction szs arbitrary: acc w)
  case Nil
  then show ?case by simp
next
  case (Cons sz szs)
  show ?case
  proof (cases "Image_resize L img sz LANCZOS")
    case (Inl e')
    with Cons.prems have "e' = e" "w' = called (Resize img sz LANCZOS) w"
      by (auto simp: Let_def)
    with Inl show ?thesis
      by (auto simp: called_def intro!: exI [of _ 0])
  next
    case (Inr r)
    with Cons.prems have rest:
      "resize_loop L img szs (acc @ [r]) (called (Resize img sz LANCZOS) w) = (Inl e, w')"
      by (simp add: Let_def)
    from Cons.IH [OF rest] obtain k where k: "k < length szs"
      "Image_resize L img (szs ! k) LANCZOS = Inl e"
      "calls w' = calls (called (Resize img sz LANCZOS) w) @ map (\<lambda>sz. Resize img sz LANCZOS) (take (Suc k) szs)"
      and fs: "files w' = files (called (Resize img sz LANCZOS) w)"
        "stdout w' = stdout (called (Resize img sz LANCZOS) w)"
      by blast
    from k fs show ?thesis
      by (auto simp: called_def intro!: exI [of _ "Suc k"])
  qed
qed

lemma sizes_variants:
  assumes "map f sizes = map Inr vs"
  shows "length vs = 6" and "vs = hd vs # tl vs" and "f (256, 256) = Inr (hd vs)"
proof -
  from assms have "length (map f sizes) = length (map Inr vs)" by simp
  then show len: "length vs = 6" by (simp add: sizes_def)
  then show cons: "vs = hd vs # tl vs" by (cases vs) auto
  from assms cons show "f (256, 256) = Inr (hd vs)"
    by (cases vs) (auto simp: sizes_def)
qed

lemma create_icon_try_resized:
  assumes op: "Image_open L (files w) png = Inr img0"
    and cv: "(if Image_mode L img0 \<noteq> ''RGBA'' then Image_convert L img0 ''RGBA'' else Inr img0) = Inr img"
    and rs: "map (\<lambda>sz. Image_resize L img sz LANCZOS) sizes = map Inr vs"
  shows "create_icon_try S L P png ico w =
     (let cs = calls w @ Open png
                  # (if Image_mode L img0 \<noteq> ''RGBA'' then [Convert img0 ''RGBA''] else [])
                  @ map (\<lambda>sz. Resize img sz LANCZOS) sizes
                  @ [Save (hd vs) ico ''ICO'' sizes (tl vs)]
      in case Image_save L (files w) (hd vs) ico ''ICO'' sizes (tl vs) of
           (Inl e, fs) \<Rightarrow> (Inl e, w\<lparr>files := fs, calls := cs\<rparr>)
         | (Inr _, fs) \<Rightarrow>
             (case stdout_error S (stdout w) (created_line ico) of
                Some e \<Rightarrow> (Inl e, w\<lparr>files := fs, calls := cs\<rparr>)
              | None \<Rightarrow>
                  (case stdout_error S (stdout w @ [created_line ico]) sizes_line of
                     Some e \<Rightarrow>
                       (Inl e, w\<lparr>files := fs, stdout := stdout w @ [created_line ico], calls := cs\<rparr>)
                   | None \<Rightarrow>
                       (case Path_stat_st_size P fs (Path P ico) of
                          Inl e \<Rightarrow>
                            (Inl e, w\<lparr>files := fs,
                                      stdout := stdout w @ [created_line ico, sizes_line],
                                      calls := cs @ [Stat (Path P ico)]\<rparr>)
                        | Inr n \<Rightarrow>
                            (case stdout_error S (stdout w @ [created_line ico, sizes_line])
                                    (file_size_line n) of
                               Some e \<Rightarrow>
                                 (Inl e, w\<lparr>files := fs,
                                           stdout := stdout w @ [created_line ico, sizes_line],
                                           calls := cs @ [Stat (Path P ico)]\<rparr>)
                             | None \<Rightarrow>
                                 (Inr True,
                                  w\<lparr>files := fs,
                                    stdout := stdout w
                                      @ [created_line ico, sizes_line, file_size_line n],
                                    calls := cs @ [Stat (Path P ico)]\<rparr>))))))"
proof -
  from sizes_variants(2) [OF rs] obtain v others where vs: "vs = v # others"
    by blast
  note lp = resize_loop_ok [OF rs, of "[]", simplified]
  show ?thesis
  proof (cases "Image_mode L img0 \<noteq> ''RGBA''")
    case True
    with cv have "Image_convert L img0 ''RGBA'' = Inr img" by simp
    with True op show ?thesis
      by (auto simp: create_icon_try_def Let_def lp vs called_def print_def prints_two
               split: prod.splits sum.splits option.splits)
  next
    case False
    with cv have eq: "img = img0" by simp
    from False op show ?thesis
      unfolding eq
      by (auto simp: create_icon_try_def Let_def lp [unfolded eq] vs called_def print_def prints_two
               split: prod.splits sum.splits option.splits)
  qed
qed

lemma create_icon_try_Inr:
  assumes run: "create_icon_try S L P png ico w = (Inr b, w')"
  shows "\<exists>img0 img vs fs' n.
           Image_open L (files w) png = Inr img0
         \<and> (if Image_mode L img0 \<noteq> ''RGBA'' then Image_convert L img0 ''RGBA'' else Inr img0) = Inr img
         \<and> map (\<lambda>sz. Image_resize L img sz LANCZOS) sizes = map Inr vs
         \<and> Image_save L (files w) (hd vs) ico ''ICO'' sizes (tl vs) = (Inr (), fs')
         \<and> stdout_error S (stdout w) (created_line ico) = None
         \<and> stdout_error S (stdout w @ [created_line ico]) sizes_line = None
         \<and> Path_stat_st_size P fs' (Path P ico) = Inr n
         \<and> stdout_error S (stdout w @ [created_line ico, sizes_line]) (file_size_line n) = None
         \<and> b
         \<and> w' = w\<lparr>files := fs',
                  stdout := stdout w @ [created_line ico, sizes_line, file_size_line n],
                  calls := calls w @ Open png
                    # (if Image_mode L img0 \<noteq> ''RGBA'' then [Convert img0 ''RGBA''] else [])
                    @ map (\<lambda>sz. Resize img sz LANCZOS) sizes
                    @ [Save (hd vs) ico ''ICO'' sizes (tl vs), Stat (Path P ico)]\<rparr>"
proof -
  let ?w1 = "called (Open png) w"
  from run obtain img0 where op: "Image_open L (files w) png = Inr img0"
    by (cases "Image_open L (files w) png") (auto simp: create_icon_try_def Let_def)
  let ?r = "if Image_mode L img0 \<noteq> ''RGBA'' then Image_convert L img0 ''RGBA'' else Inr img0"
  let ?w2 = "if Image_mode L img0 \<noteq> ''RGBA'' then called (Convert img0 ''RGBA'') ?w1 else ?w1"
  from run op obtain img where cv: "?r = Inr img"
    by (cases ?r) (auto simp: create_icon_try_def Let_def split: if_splits)
  obtain r w3 where lp0: "resize_loop L img sizes [] ?w2 = (r, w3)"
    by (cases "resize_loop L img sizes [] ?w2")
  from run op cv lp0 obtain vs where r: "r = Inr vs"
    by (cases r) (auto simp: create_icon_try_def Let_def split: if_splits)
  from resize_loop_Inr [OF lp0 [unfolded r]]
  have rs: "map (\<lambda>sz. Image_resize L img sz LANCZOS) sizes = map Inr vs"
    by auto
  note nf = create_icon_try_resized [OF op cv rs, of S P ico]
  from run obtain fs' n where
    "Image_save L (files w) (hd vs) ico ''ICO'' sizes (tl vs) = (Inr (), fs')"
    "stdout_error S (stdout w) (created_line ico) = None"
    "stdout_error S (stdout w @ [created_line ico]) sizes_line = None"
    "Path_stat_st_size P fs' (Path P ico) = Inr n"
    "stdout_error S (stdout w @ [created_line ico, sizes_line]) (file_size_line n) = None"
    "b"
    "w' = w\<lparr>files := fs',
                  stdout := stdout w @ [created_line ico, sizes_line, file_size_line n],
                  calls := calls w @ Open png
                    # (if Image_mode L img0 \<noteq> ''RGBA'' then [Convert img0 ''RGBA''] else [])
                    @ map (\<lambda>sz. Resize img sz LANCZOS) sizes
                    @ [Save (hd vs) ico ''ICO'' sizes (tl vs), Stat (Path P ico)]\<rparr>"
    unfolding nf Let_def
    by (auto split: prod.splits sum.splits option.splits)
  with op cv rs show ?thesis
    by (intro exI [of _ img0] exI [of _ img] exI [of _ vs] exI [of _ fs'] exI [of _ n]) simp
qed

lemma resize_loop_fail:
  "k < length szs \<Longrightarrow>
   map (\<lambda>sz. Image_resize L img sz LANCZOS) (take k szs) = map Inr rs \<Longrightarrow>
   Image_resize L img (szs ! k) LANCZOS = Inl e \<Longrightarrow>
   resize_loop L img szs acc w =
     (Inl e, w\<lparr>calls := calls w @ map (\<lambda>sz. Resize img sz LANCZOS) (take (Suc k) szs)\<rparr>)"
proof (induction szs arbitrary: k acc w rs)
  case Nil
  then show ?case by simp
next
  case (Cons sz szs)
  show ?case
  proof (cases k)
    case 0
    with Cons.prems show ?thesis by (simp add: called_def)
  next
    case (Suc j)
    with Cons.prems obtain r rs' where r: "Image_resize L img sz LANCZOS = Inr r"
      and rest: "map (\<lambda>sz. Image_resize L img sz LANCZOS) (take j szs) = map Inr rs'"
      by (cases rs) auto
    from Cons.prems Suc have j: "j < length szs" "Image_resize L img (szs ! j) LANCZOS = Inl e"
      by simp_all
    show ?thesis
      by (simp add: r Suc Cons.IH [OF j(1) rest j(2)] called_def)
  qed
qed

lemma create_icon_try_open_fails:
  "Image_open L (files w) png = Inl e \<Longrightarrow>
     create_icon_try S L P png ico w = (Inl e, w\<lparr>calls := calls w @ [Open png]\<rparr>)"
  by (simp add: create_icon_try_def Let_def called_def)

lemma create_icon_try_convert_fails:
  "Image_open L (files w) png = Inr img0 \<Longrightarrow> Image_mode L img0 \<noteq> ''RGBA'' \<Longrightarrow>
   Image_convert L img0 ''RGBA'' = Inl e \<Longrightarrow>
     create_icon_try S L P png ico w =
       (Inl e, w\<lparr>calls := calls w @ [Open png, Convert img0 ''RGBA'']\<rparr>)"
  by (simp add: create_icon_try_def Let_def called_def)

lemma create_icon_try_resize_fails:
  assumes op: "Image_open L (files w) png = Inr img0"
    and cv: "(if Image_mode L img0 \<noteq> ''RGBA'' then Image_convert L img0 ''RGBA'' else Inr img0) = Inr img"
    and k: "k < length sizes"
    and before: "map (\<lambda>sz. Image_resize L img sz LANCZOS) (take k sizes) = map Inr rs"
    and at: "Image_resize L img (sizes ! k) LANCZOS = Inl e"
  shows "create_icon_try S L P png ico w =
       (Inl e, w\<lparr>calls := calls w @ Open png
           # (if Image_mode L img0 \<noteq> ''RGBA'' then [Convert img0 ''RGBA''] else [])
           @ map (\<lambda>sz. Resize img sz LANCZOS) (take (Suc k) sizes)\<rparr>)"
proof -
  note lp = resize_loop_fail [OF k before at]
  show ?thesis
  proof (cases "Image_mode L img0 \<noteq> ''RGBA''")
    case True
    with cv have "Image_convert L img0 ''RGBA'' = Inr img" by simp
    with True op show ?thesis
      by (simp add: create_icon_try_def Let_def lp called_def)
  next
    case False
    with cv have eq: "img = img0" by simp
    from False op show ?thesis
      unfolding eq by (simp add: create_icon_try_def Let_def lp [unfolded eq] called_def)
  qed
qed

lemma create_icon_returns:
  "create_icon_try S L P png ico w = (Inr b, w') \<Longrightarrow> create_icon S L P png ico w = (Inr b, w')"
  by (simp add: create_icon_def)

lemma create_icon_handler:
  "create_icon_try S L P png ico w = (Inl (Exc e), w') \<Longrightarrow>
     create_icon S L P png ico w =
       (case stdout_error S (stdout w') (error_line e) of
          Some x \<Rightarrow> (Inl x, w')
        | None \<Rightarrow> (Inr False, w'\<lparr>stdout := stdout w' @ [error_line e]\<rparr>))"
  by (simp add: create_icon_def print_def split: option.splits)

lemma create_icon_passes:
  "create_icon_try S L P png ico w = (Inl (NonExc e), w') \<Longrightarrow>
     create_icon S L P png ico w = (Inl (NonExc e), w')"
  by (simp add: create_icon_def)

lemma create_icon_calls:
  "calls (snd (create_icon S L P png ico w)) = calls (snd (create_icon_try S L P png ico w))"
  "files (snd (create_icon S L P png ico w)) = files (snd (create_icon_try S L P png ico w))"
  by (simp_all add: create_icon_def print_def split: prod.splits sum.splits exn.splits option.splits)

lemma create_icon_True_world:
  "fst (create_icon S L P png ico w) = Inr True \<Longrightarrow>
     create_icon S L P png ico w = create_icon_try S L P png ico w"
  by (auto simp: create_icon_def print_def split: prod.splits sum.splits exn.splits option.splits)

lemma create_icon_try_bool:
  "fst (create_icon_try S L P png ico w) = Inr b \<Longrightarrow> b"
  using create_icon_try_Inr [of S L P png ico w b "snd (create_icon_try S L P png ico w)"]
  by (cases "create_icon_try S L P png ico w") auto

lemma demo_run:
  "create_icon utf8_sys (demo_pil k None) demo_pathlib ''logo.png'' ''out.ico'' demo_world =
     (Inr True,
      \<lparr> files = (''out.ico'', k * 6) # files demo_world,
        stdout = [created_line ''out.ico'', sizes_line, file_size_line (k * 6)],
        calls = [Open ''logo.png'', Convert (Picture ''RGB'' (512, 512)) ''RGBA'',
          Resize (Picture ''RGBA'' (512, 512)) (256, 256) LANCZOS,
          Resize (Picture ''RGBA'' (512, 512)) (128, 128) LANCZOS,
          Resize (Picture ''RGBA'' (512, 512)) (64, 64) LANCZOS,
          Resize (Picture ''RGBA'' (512, 512)) (48, 48) LANCZOS,
          Resize (Picture ''RGBA'' (512, 512)) (32, 32) LANCZOS,
          Resize (Picture ''RGBA'' (512, 512)) (16, 16) LANCZOS,
          Save (Picture ''RGBA'' (256, 256)) ''out.ico'' ''ICO'' sizes
            (map (Picture ''RGBA'') [(128, 128), (64, 64), (48, 48), (32, 32), (16, 16)]),
          Stat ''out.ico''] \<rparr>)"
  by (simp add: create_icon_def create_icon_try_def Let_def demo_pil_def demo_pathlib_def
        demo_world_def sizes_def print_def called_def utf8_sys_def)
     (rule arg_cong [where f = file_size_line], arith)

lemma demo_save_fails:
  "create_icon_try S (demo_pil k (Some e)) demo_pathlib ''logo.png'' ''out.ico'' demo_world =
     (Inl (Exc e),
      demo_world \<lparr> calls := [Open ''logo.png'', Convert (Picture ''RGB'' (512, 512)) ''RGBA'',
          Resize (Picture ''RGBA'' (512, 512)) (256, 256) LANCZOS,
          Resize (Picture ''RGBA'' (512, 512)) (128, 128) LANCZOS,
          Resize (Picture ''RGBA'' (512, 512)) (64, 64) LANCZOS,
          Resize (Picture ''RGBA'' (512, 512)) (48, 48) LANCZOS,
          Resize (Picture ''RGBA'' (512, 512)) (32, 32) LANCZOS,
          Resize (Picture ''RGBA'' (512, 512)) (16, 16) LANCZOS,
          Save (Picture ''RGBA'' (256, 256)) ''out.ico'' ''ICO'' sizes
            (map (Picture ''RGBA'') [(128, 128), (64, 64), (48, 48), (32, 32), (16, 16)])] \<rparr>)"
  by (simp add: create_icon_try_def Let_def demo_pil_def demo_pathlib_def
        demo_world_def sizes_def print_def called_def)

lemma demo_corrupt:
  "create_icon_try S (demo_pil k bad) demo_pathlib ''corrupt.png'' ''out.ico'' demo_world =
     (Inl (Exc ''cannot identify image file''), demo_world \<lparr> calls := [Open ''corrupt.png''] \<rparr>)"
  by (simp add: create_icon_try_def Let_def demo_pil_def demo_world_def called_def)

lemma demo_lazy:
  "create_icon_try S lazy_pil demo_pathlib ''corrupt.png'' ''out.ico'' demo_world =
     (Inl (Exc ''image file is truncated''),
      demo_world \<lparr> calls := [Open ''corrupt.png'', Convert (Picture ''RGB'' (512, 512)) ''RGBA''] \<rparr>)"
  by (simp add: create_icon_try_def Let_def lazy_pil_def demo_pil_def demo_world_def called_def)

lemma resized_sizes:
  assumes rs: "map (\<lambda>sz. Image_resize L img sz LANCZOS) sizes = map Inr vs"
    and exact: "\<forall>sz v. Image_resize L img sz LANCZOS = Inr v \<longrightarrow> Image_size L v = sz"
  shows "map (Image_size L) vs = sizes"
proof (rule nth_equalityI)
  show "length (map (Image_size L) vs) = length sizes"
    using sizes_variants(1) [OF rs] by (simp add: sizes_def)
next
  fix i assume "i < length (map (Image_size L) vs)"
  then have i: "i < length vs" by simp
  then have "i < length sizes" using sizes_variants(1) [OF rs] by (simp add: sizes_def)
  with i have "Image_resize L img (sizes ! i) LANCZOS = Inr (vs ! i)"
    using arg_cong [OF rs, of "\<lambda>xs. xs ! i"] by simp
  with exact have "Image_size L (vs ! i) = sizes ! i" by blast
  with i show "map (Image_size L) vs ! i = sizes ! i" by simp
qed

lemma successful_run_save:
  assumes "fst (create_icon S L P png ico w) = Inr True"
  shows "\<exists>img vs. map (\<lambda>sz. Image_resize L img sz LANCZOS) sizes = map Inr vs
     \<and> filter is_Save (drop (length (calls w)) (calls (snd (create_icon S L P png ico w))))
         = [Save (hd vs) ico ''ICO'' sizes (tl vs)]
     \<and> Image_save L (files w) (hd vs) ico ''ICO'' sizes (tl vs)
         = (Inr (), files (snd (create_icon S L P png ico w)))"
proof -
  from assms have eq: "create_icon S L P png ico w = create_icon_try S L P png ico w"
    by (rule create_icon_True_world)
  with assms obtain w' where run: "create_icon_try S L P png ico w = (Inr True, w')"
    by (cases "create_icon_try S L P png ico w") auto
  from create_icon_try_Inr [OF run] obtain img0 img vs fs' n where
    rs: "map (\<lambda>sz. Image_resize L img sz LANCZOS) sizes = map Inr vs"
    and sv: "Image_save L (files w) (hd vs) ico ''ICO'' sizes (tl vs) = (Inr (), fs')"
    and w': "w' = w\<lparr>files := fs',
                  stdout := stdout w @ [created_line ico, sizes_line, file_size_line n],
                  calls := calls w @ Open png
                    # (if Image_mode L img0 \<noteq> ''RGBA'' then [Convert img0 ''RGBA''] else [])
                    @ map (\<lambda>sz. Resize img sz LANCZOS) sizes
                    @ [Save (hd vs) ico ''ICO'' sizes (tl vs), Stat (Path P ico)]\<rparr>"
    by blast
  have "filter is_Save (drop (length (calls w)) (calls (snd (create_icon S L P png ico w))))
         = [Save (hd vs) ico ''ICO'' sizes (tl vs)]"
    unfolding eq run w' by (simp add: filter_map comp_def)
  moreover have "Image_save L (files w) (hd vs) ico ''ICO'' sizes (tl vs)
         = (Inr (), files (snd (create_icon S L P png ico w)))"
    unfolding eq run w' using sv by simp
  ultimately show ?thesis using rs by blast
qed

lemma create_icon_outcome:
  "fst (create_icon S L P png ico w) =
     (case create_icon_try S L P png ico w of
        (Inr _, _) \<Rightarrow> Inr True
      | (Inl (NonExc e), _) \<Rightarrow> Inl (NonExc e)
      | (Inl (Exc e), w') \<Rightarrow>
          (case stdout_error S (stdout w') (error_line e) of
             None \<Rightarrow> Inr False
           | Some x \<Rightarrow> Inl x))"
proof (cases "create_icon_try S L P png ico w")
  case (Pair r w')
  show ?thesis
  proof (cases r)
    case (Inl e)
    with Pair show ?thesis
      by (cases e) (simp_all add: create_icon_handler create_icon_passes split: option.splits)
  next
    case (Inr b)
    with Pair create_icon_try_bool [of S L P png ico w b] have b by simp
    with Pair Inr show ?thesis by (simp add: create_icon_returns)
  qed
qed




lemma create_icon_try_save_fails:
  assumes op: "Image_open L (files w) png = Inr img0"
    and cv: "(if Image_mode L img0 \<noteq> ''RGBA'' then Image_convert L img0 ''RGBA'' else Inr img0) = Inr img"
    and rs: "map (\<lambda>sz. Image_resize L img sz LANCZOS) sizes = map Inr vs"
    and sv: "Image_save L (files w) (hd vs) ico ''ICO'' sizes (tl vs) = (Inl e, fs')"
  shows "create_icon_try S L P png ico w =
     (Inl e, w\<lparr>files := fs',
               calls := calls w @ Open png
                  # (if Image_mode L img0 \<noteq> ''RGBA'' then [Convert img0 ''RGBA''] else [])
                  @ map (\<lambda>sz. Resize img sz LANCZOS) sizes
                  @ [Save (hd vs) ico ''ICO'' sizes (tl vs)]\<rparr>)"
  by (simp add: create_icon_try_resized [OF op cv rs] sv Let_def)

lemma create_icon_try_stat_fails:
  assumes op: "Image_open L (files w) png = Inr img0"
    and cv: "(if Image_mode L img0 \<noteq> ''RGBA'' then Image_convert L img0 ''RGBA'' else Inr img0) = Inr img"
    and rs: "map (\<lambda>sz. Image_resize L img sz LANCZOS) sizes = map Inr vs"
    and sv: "Image_save L (files w) (hd vs) ico ''ICO'' sizes (tl vs) = (Inr (), fs')"
    and p1: "stdout_error S (stdout w) (created_line ico) = None"
    and p2: "stdout_error S (stdout w @ [created_line ico]) sizes_line = None"
    and st: "Path_stat_st_size P fs' (Path P ico) = Inl e"
  shows "create_icon_try S L P png ico w =
     (Inl e, w\<lparr>files := fs',
               stdout := stdout w @ [created_line ico, sizes_line],
               calls := calls w @ Open png
                  # (if Image_mode L img0 \<noteq> ''RGBA'' then [Convert img0 ''RGBA''] else [])
                  @ map (\<lambda>sz. Resize img sz LANCZOS) sizes
                  @ [Save (hd vs) ico ''ICO'' sizes (tl vs), Stat (Path P ico)]\<rparr>)"
  by (simp add: create_icon_try_resized [OF op cv rs] sv p1 p2 st Let_def)

lemma create_icon_trichotomy:
  "(\<exists>b. fst (create_icon S L P png ico w) = Inr b)
   \<or> (\<exists>x. fst (create_icon_try S L P png ico w) = Inl (NonExc x)
          \<and> fst (create_icon S L P png ico w) = Inl (NonExc x))
   \<or> (\<exists>e x. fst (create_icon_try S L P png ico w) = Inl (Exc e)
          \<and> stdout_error S (stdout (snd (create_icon_try S L P png ico w))) (error_line e) = Some x
          \<and> fst (create_icon S L P png ico w) = Inl x)"
proof (cases "create_icon_try S L P png ico w")
  case (Pair r w')
  show ?thesis
  proof (cases r)
    case (Inl e)
    with Pair show ?thesis
      by (cases e) (auto simp: create_icon_outcome split: option.splits)
  next
    case (Inr b)
    with Pair show ?thesis by (auto simp: create_icon_outcome)
  qed
qed

subsection \<open>The command line\<close>

text \<open>
  Claim C8. With no positional argument both paths are the defaults,
  \<^verbatim>\<open>assets/app-logo-color.png\<close> and \<^verbatim>\<open>assets/app-icon.ico\<close> under the project root;
  with one, the source is the argument and the destination is still the default; with
  two, both are the arguments.
\<close>

theorem argument_paths:
  "main_paths P file [prog] = (default_png_path P file, default_ico_path P file)
   \<and> main_paths P file [prog, a] = (Path P a, default_ico_path P file)
   \<and> main_paths P file [prog, a, b] = (Path P a, Path P b)
   \<and> default_png_path P file =
       Path_joinpath P (Path_joinpath P (Path_parent P (Path_parent P (Path P file))) ''assets'')
         ''app-logo-color.png''
   \<and> default_ico_path P file =
       Path_joinpath P (Path_joinpath P (Path_parent P (Path_parent P (Path P file))) ''assets'')
         ''app-icon.ico''"
  by (simp add: main_paths_def default_png_path_def default_ico_path_def)

theorem argument_paths_witness:
  "main_paths demo_pathlib ''/repo/scripts/create-icon.py'' [''create-icon.py'']
     = (''/repo/assets/app-logo-color.png'', ''/repo/assets/app-icon.ico'')
   \<and> main_paths demo_pathlib ''/repo/scripts/create-icon.py'' [''create-icon.py'', ''logo.png'']
     = (''logo.png'', ''/repo/assets/app-icon.ico'')
   \<and> main_paths demo_pathlib ''/repo/scripts/create-icon.py'' [''create-icon.py'', ''logo.png'', ''out.ico'']
     = (''logo.png'', ''out.ico'')"
  using argument_paths [of demo_pathlib "''/repo/scripts/create-icon.py''" "''create-icon.py''"
      "''logo.png''" "''out.ico''"]
  by (simp add: demo_pathlib_def demo_parent_def)

text \<open>
  Claim C9. Without arguments, the source and the destination are resolved against a
  project root that is the parent of the parent of the script's path: when the script
  lies in \<open>script_dir\<close> and that directory in \<open>project_root\<close>, the defaults are
  \<^verbatim>\<open>assets/app-logo-color.png\<close> and \<^verbatim>\<open>assets/app-icon.ico\<close> under \<open>project_root\<close>.
\<close>

theorem default_project_root:
  "main_paths P file [prog] =
     (Path_joinpath P (Path_joinpath P (Path_parent P (Path_parent P (Path P file))) ''assets'')
        ''app-logo-color.png'',
      Path_joinpath P (Path_joinpath P (Path_parent P (Path_parent P (Path P file))) ''assets'')
        ''app-icon.ico'')
   \<and> (Path_parent P (Path P file) = script_dir \<and> Path_parent P script_dir = project_root
        \<longrightarrow> main_paths P file [prog] =
          (Path_joinpath P (Path_joinpath P project_root ''assets'') ''app-logo-color.png'',
           Path_joinpath P (Path_joinpath P project_root ''assets'') ''app-icon.ico''))"
  by (simp add: main_paths_def default_png_path_def default_ico_path_def)

theorem default_project_root_witness:
  "Path_parent demo_pathlib (Path demo_pathlib ''/repo/scripts/create-icon.py'') = ''/repo/scripts''
   \<and> Path_parent demo_pathlib ''/repo/scripts'' = ''/repo''
   \<and> main_paths demo_pathlib ''/repo/scripts/create-icon.py'' [''create-icon.py'']
       = (''/repo/assets/app-logo-color.png'', ''/repo/assets/app-icon.ico'')"
  using default_project_root [of demo_pathlib "''/repo/scripts/create-icon.py''" "''create-icon.py''"
      "''/repo/scripts''" "''/repo''"]
  by (simp add: demo_pathlib_def demo_parent_def)

text \<open>
  Claim C10. Arguments after the second are ignored: the whole run (exit code, output,
  files, calls) is the run with the first two positional arguments only.
\<close>

theorem extra_arguments_ignored:
  "script S pillow P file (prog # a # b # extra) w = script S pillow P file [prog, a, b] w"
  by (simp add: script_def main_def main_paths_def split: option.splits)

theorem extra_arguments_ignored_witness:
  "script utf8_sys (Some (demo_pil 1024 None)) demo_pathlib ''/repo/scripts/create-icon.py''
      [''create-icon.py'', ''logo.png'', ''out.ico'', ''extra'', ''--verbose''] demo_world
   = script utf8_sys (Some (demo_pil 1024 None)) demo_pathlib ''/repo/scripts/create-icon.py''
      [''create-icon.py'', ''logo.png'', ''out.ico''] demo_world
   \<and> fst (script utf8_sys (Some (demo_pil 1024 None)) demo_pathlib ''/repo/scripts/create-icon.py''
      [''create-icon.py'', ''logo.png'', ''out.ico'', ''extra'', ''--verbose''] demo_world) = Exit 0"
  using extra_arguments_ignored [of utf8_sys "Some (demo_pil 1024 None)" demo_pathlib
      "''/repo/scripts/create-icon.py''" "''create-icon.py''" "''logo.png''" "''out.ico''"
      "[''extra'', ''--verbose'']" demo_world]
  by (simp add: script_def main_def main_paths_def create_icon_def create_icon_try_def Let_def
        demo_pil_def demo_pathlib_def demo_world_def sizes_def banner_def utf8_sys_def print_def
        called_def)

subsection \<open>The conversion\<close>

text \<open>
  Claim C1. For an input that Pillow opens, normalises to RGBA and resizes (whether it
  was RGBA or not), \<^verbatim>\<open>create_icon\<close> produces exactly six variants. Every one of the
  six \<^verbatim>\<open>resize\<close> calls is made on the one normalised image \<open>img\<close>, never on an earlier
  variant, with the target box as its argument; the boxes are 256, 128, 64, 48, 32 and
  16 pixels square, in that order, and, \<^verbatim>\<open>resize\<close> returning an image of the box it
  was given, these are the sizes of the variants handed to \<^verbatim>\<open>save\<close>.
\<close>

theorem six_variants:
  assumes "Image_open L (files w) png = Inr img0"
    and "(if Image_mode L img0 \<noteq> ''RGBA'' then Image_convert L img0 ''RGBA'' else Inr img0) = Inr img"
    and "map (\<lambda>sz. Image_resize L img sz LANCZOS) sizes = map Inr vs"
    and "\<forall>sz v. Image_resize L img sz LANCZOS = Inr v \<longrightarrow> Image_size L v = sz"
  shows "length vs = 6
     \<and> map (Image_size L) vs = [(256, 256), (128, 128), (64, 64), (48, 48), (32, 32), (16, 16)]
     \<and> (\<exists>rest. calls (snd (create_icon S L P png ico w)) =
           calls w @ Open png
             # (if Image_mode L img0 \<noteq> ''RGBA'' then [Convert img0 ''RGBA''] else [])
             @ map (\<lambda>sz. Resize img sz LANCZOS)
                 [(256, 256), (128, 128), (64, 64), (48, 48), (32, 32), (16, 16)]
             @ Save (hd vs) ico ''ICO'' sizes (tl vs) # rest
         \<and> (rest = [] \<or> rest = [Stat (Path P ico)]))"
proof (intro conjI)
  show "length vs = 6" using assms(3) by (rule sizes_variants(1))
  show "map (Image_size L) vs = [(256, 256), (128, 128), (64, 64), (48, 48), (32, 32), (16, 16)]"
    using resized_sizes [OF assms(3,4)] by (simp add: sizes_def)
  show "\<exists>rest. calls (snd (create_icon S L P png ico w)) =
           calls w @ Open png
             # (if Image_mode L img0 \<noteq> ''RGBA'' then [Convert img0 ''RGBA''] else [])
             @ map (\<lambda>sz. Resize img sz LANCZOS)
                 [(256, 256), (128, 128), (64, 64), (48, 48), (32, 32), (16, 16)]
             @ Save (hd vs) ico ''ICO'' sizes (tl vs) # rest
         \<and> (rest = [] \<or> rest = [Stat (Path P ico)])"
    unfolding create_icon_calls create_icon_try_resized [OF assms(1-3)] sizes_def [symmetric]
    by (simp add: Let_def split: prod.splits sum.splits option.splits)
qed

theorem six_variants_witness:
  "Image_open (demo_pil 1024 None) (files demo_world) ''logo.png'' = Inr (Picture ''RGB'' (512, 512))
   \<and> (if Image_mode (demo_pil 1024 None) (Picture ''RGB'' (512, 512)) \<noteq> ''RGBA''
       then Image_convert (demo_pil 1024 None) (Picture ''RGB'' (512, 512)) ''RGBA''
       else Inr (Picture ''RGB'' (512, 512))) = Inr (Picture ''RGBA'' (512, 512))
   \<and> map (\<lambda>sz. Image_resize (demo_pil 1024 None) (Picture ''RGBA'' (512, 512)) sz LANCZOS) sizes
       = map Inr (map (Picture ''RGBA'') sizes)
   \<and> length (map (Picture ''RGBA'') sizes) = 6
   \<and> map (Image_size (demo_pil 1024 None)) (map (Picture ''RGBA'') sizes)
       = [(256, 256), (128, 128), (64, 64), (48, 48), (32, 32), (16, 16)]
   \<and> calls (snd (create_icon utf8_sys (demo_pil 1024 None) demo_pathlib ''logo.png'' ''out.ico'' demo_world))
       = [Open ''logo.png'', Convert (Picture ''RGB'' (512, 512)) ''RGBA'',
          Resize (Picture ''RGBA'' (512, 512)) (256, 256) LANCZOS,
          Resize (Picture ''RGBA'' (512, 512)) (128, 128) LANCZOS,
          Resize (Picture ''RGBA'' (512, 512)) (64, 64) LANCZOS,
          Resize (Picture ''RGBA'' (512, 512)) (48, 48) LANCZOS,
          Resize (Picture ''RGBA'' (512, 512)) (32, 32) LANCZOS,
          Resize (Picture ''RGBA'' (512, 512)) (16, 16) LANCZOS,
          Save (Picture ''RGBA'' (256, 256)) ''out.ico'' ''ICO'' sizes
            (map (Picture ''RGBA'') [(128, 128), (64, 64), (48, 48), (32, 32), (16, 16)]),
          Stat ''out.ico'']"
proof -
  let ?L = "demo_pil 1024 None"
  have h1: "Image_open ?L (files demo_world) ''logo.png'' = Inr (Picture ''RGB'' (512, 512))"
    by (simp add: demo_pil_def demo_world_def)
  have h2: "(if Image_mode ?L (Picture ''RGB'' (512, 512)) \<noteq> ''RGBA''
       then Image_convert ?L (Picture ''RGB'' (512, 512)) ''RGBA''
       else Inr (Picture ''RGB'' (512, 512))) = Inr (Picture ''RGBA'' (512, 512))"
    by (simp add: demo_pil_def)
  have h3: "map (\<lambda>sz. Image_resize ?L (Picture ''RGBA'' (512, 512)) sz LANCZOS) sizes
       = map Inr (map (Picture ''RGBA'') sizes)"
    by (simp add: demo_pil_def)
  have h4: "\<forall>sz v. Image_resize ?L (Picture ''RGBA'' (512, 512)) sz LANCZOS = Inr v
         \<longrightarrow> Image_size ?L v = sz"
    by (auto simp: demo_pil_def)
  have run: "calls (snd (create_icon utf8_sys ?L demo_pathlib ''logo.png'' ''out.ico'' demo_world))
       = [Open ''logo.png'', Convert (Picture ''RGB'' (512, 512)) ''RGBA'',
          Resize (Picture ''RGBA'' (512, 512)) (256, 256) LANCZOS,
          Resize (Picture ''RGBA'' (512, 512)) (128, 128) LANCZOS,
          Resize (Picture ''RGBA'' (512, 512)) (64, 64) LANCZOS,
          Resize (Picture ''RGBA'' (512, 512)) (48, 48) LANCZOS,
          Resize (Picture ''RGBA'' (512, 512)) (32, 32) LANCZOS,
          Resize (Picture ''RGBA'' (512, 512)) (16, 16) LANCZOS,
          Save (Picture ''RGBA'' (256, 256)) ''out.ico'' ''ICO'' sizes
            (map (Picture ''RGBA'') [(128, 128), (64, 64), (48, 48), (32, 32), (16, 16)]),
          Stat ''out.ico'']"
    by (simp add: demo_run)
  from six_variants [OF h1 h2 h3 h4, of utf8_sys demo_pathlib "''out.ico''"]
  have "length (map (Picture ''RGBA'') sizes) = 6"
    and "map (Image_size ?L) (map (Picture ''RGBA'') sizes)
       = [(256, 256), (128, 128), (64, 64), (48, 48), (32, 32), (16, 16)]"
    by blast+
  with h1 h2 h3 run show ?thesis by blast
qed

text \<open>
  Claim C2. A run that returns \<^verbatim>\<open>True\<close> has invoked the encoder exactly once:
  \<^verbatim>\<open>save\<close> was applied to the files as the run found them, on the first variant, the
  resize to 256 by 256, with the other five as \<^verbatim>\<open>append_images\<close>, with the format
  ICO, the destination path and with \<^verbatim>\<open>sizes\<close> the fixed list in its order; it did
  not raise, and the files it left are the files after the run. So two successful runs
  (a run and its repetition on the world the first one left, or any other) declare the
  same sizes and hand over the same number of images.
\<close>

theorem encoder_called_once:
  assumes "fst (create_icon S L P png ico w1) = Inr True"
    and "fst (create_icon S L P png ico w2) = Inr True"
  shows "\<exists>img1 vs1 img2 vs2.
       filter is_Save (drop (length (calls w1)) (calls (snd (create_icon S L P png ico w1))))
         = [Save (hd vs1) ico ''ICO''
              [(256, 256), (128, 128), (64, 64), (48, 48), (32, 32), (16, 16)] (tl vs1)]
     \<and> filter is_Save (drop (length (calls w2)) (calls (snd (create_icon S L P png ico w2))))
         = [Save (hd vs2) ico ''ICO''
              [(256, 256), (128, 128), (64, 64), (48, 48), (32, 32), (16, 16)] (tl vs2)]
     \<and> Image_save L (files w1) (hd vs1) ico ''ICO''
           [(256, 256), (128, 128), (64, 64), (48, 48), (32, 32), (16, 16)] (tl vs1)
         = (Inr (), files (snd (create_icon S L P png ico w1)))
     \<and> Image_save L (files w2) (hd vs2) ico ''ICO''
           [(256, 256), (128, 128), (64, 64), (48, 48), (32, 32), (16, 16)] (tl vs2)
         = (Inr (), files (snd (create_icon S L P png ico w2)))
     \<and> map (\<lambda>sz. Image_resize L img1 sz LANCZOS)
           [(256, 256), (128, 128), (64, 64), (48, 48), (32, 32), (16, 16)] = map Inr vs1
     \<and> map (\<lambda>sz. Image_resize L img2 sz LANCZOS)
           [(256, 256), (128, 128), (64, 64), (48, 48), (32, 32), (16, 16)] = map Inr vs2
     \<and> Image_resize L img1 (256, 256) LANCZOS = Inr (hd vs1)
     \<and> Image_resize L img2 (256, 256) LANCZOS = Inr (hd vs2)
     \<and> length (hd vs1 # tl vs1) = 6 \<and> length (hd vs2 # tl vs2) = 6"
proof -
  from successful_run_save [OF assms(1)] obtain img1 vs1 where
    r1: "map (\<lambda>sz. Image_resize L img1 sz LANCZOS) sizes = map Inr vs1"
    and s1: "filter is_Save (drop (length (calls w1)) (calls (snd (create_icon S L P png ico w1))))
         = [Save (hd vs1) ico ''ICO'' sizes (tl vs1)]"
    and a1: "Image_save L (files w1) (hd vs1) ico ''ICO'' sizes (tl vs1)
         = (Inr (), files (snd (create_icon S L P png ico w1)))"
    by blast
  from successful_run_save [OF assms(2)] obtain img2 vs2 where
    r2: "map (\<lambda>sz. Image_resize L img2 sz LANCZOS) sizes = map Inr vs2"
    and s2: "filter is_Save (drop (length (calls w2)) (calls (snd (create_icon S L P png ico w2))))
         = [Save (hd vs2) ico ''ICO'' sizes (tl vs2)]"
    and a2: "Image_save L (files w2) (hd vs2) ico ''ICO'' sizes (tl vs2)
         = (Inr (), files (snd (create_icon S L P png ico w2)))"
    by blast
  note v1 = sizes_variants [OF r1] and v2 = sizes_variants [OF r2]
  have l1: "length (hd vs1 # tl vs1) = 6" using v1(1,2) by simp
  have l2: "length (hd vs2 # tl vs2) = 6" using v2(1,2) by simp
  from r1 r2 s1 s2 a1 a2 v1(3) v2(3) l1 l2 show ?thesis
    unfolding sizes_def by blast
qed

theorem encoder_called_once_witness:
  "fst (create_icon utf8_sys (demo_pil 1024 None) demo_pathlib ''logo.png'' ''out.ico'' demo_world)
     = Inr True
   \<and> fst (create_icon utf8_sys (demo_pil 1024 None) demo_pathlib ''logo.png'' ''out.ico''
        (snd (create_icon utf8_sys (demo_pil 1024 None) demo_pathlib ''logo.png'' ''out.ico''
               demo_world)))
       = Inr True
   \<and> length (filter is_Save (drop (length (calls demo_world))
        (calls (snd (create_icon utf8_sys (demo_pil 1024 None) demo_pathlib ''logo.png'' ''out.ico''
                      demo_world)))))
       = 1
   \<and> filter is_Save
        (calls (snd (create_icon utf8_sys (demo_pil 1024 None) demo_pathlib ''logo.png'' ''out.ico''
                      demo_world)))
       = [Save (Picture ''RGBA'' (256, 256)) ''out.ico'' ''ICO''
            [(256, 256), (128, 128), (64, 64), (48, 48), (32, 32), (16, 16)]
            [Picture ''RGBA'' (128, 128), Picture ''RGBA'' (64, 64), Picture ''RGBA'' (48, 48),
             Picture ''RGBA'' (32, 32), Picture ''RGBA'' (16, 16)]]
   \<and> files (snd (create_icon utf8_sys (demo_pil 1024 None) demo_pathlib ''logo.png'' ''out.ico''
                      demo_world))
       = (''out.ico'', 6144) # files demo_world"
proof -
  let ?run = "create_icon utf8_sys (demo_pil 1024 None) demo_pathlib ''logo.png'' ''out.ico''"
  have h1: "fst (?run demo_world) = Inr True"
    by (simp add: demo_run)
  have h2: "fst (?run (snd (?run demo_world))) = Inr True"
    by (simp add: demo_run)
       (simp add: create_icon_def create_icon_try_def Let_def demo_pil_def demo_pathlib_def
          demo_world_def sizes_def print_def called_def utf8_sys_def)
  from encoder_called_once [OF h1 h2]
  have once: "length (filter is_Save (drop (length (calls demo_world)) (calls (snd (?run demo_world))))) = 1"
    by auto
  have "filter is_Save (calls (snd (?run demo_world)))
       = [Save (Picture ''RGBA'' (256, 256)) ''out.ico'' ''ICO''
            [(256, 256), (128, 128), (64, 64), (48, 48), (32, 32), (16, 16)]
            [Picture ''RGBA'' (128, 128), Picture ''RGBA'' (64, 64), Picture ''RGBA'' (48, 48),
             Picture ''RGBA'' (32, 32), Picture ''RGBA'' (16, 16)]]"
    by (simp add: demo_run sizes_def)
  moreover have "files (snd (?run demo_world)) = (''out.ico'', 6144) # files demo_world"
    by (simp add: demo_run)
  ultimately show ?thesis using h1 h2 once by blast
qed

text \<open>
  Claim C5, as the specification states it, fails: \<^verbatim>\<open>create_icon\<close> returns the bare
  \<^verbatim>\<open>True\<close>. Two successful runs that write files of 6144 and of 12288 bytes return
  the same value, so the size is not part of what is returned.
\<close>

theorem result_without_byte_size:
  "fst (create_icon utf8_sys (demo_pil 1024 None) demo_pathlib ''logo.png'' ''out.ico'' demo_world) = Inr True
   \<and> fst (create_icon utf8_sys (demo_pil 2048 None) demo_pathlib ''logo.png'' ''out.ico'' demo_world) = Inr True
   \<and> Path_stat_st_size demo_pathlib
        (files (snd (create_icon utf8_sys (demo_pil 1024 None) demo_pathlib ''logo.png'' ''out.ico'' demo_world)))
        (Path demo_pathlib ''out.ico'') = Inr 6144
   \<and> Path_stat_st_size demo_pathlib
        (files (snd (create_icon utf8_sys (demo_pil 2048 None) demo_pathlib ''logo.png'' ''out.ico'' demo_world)))
        (Path demo_pathlib ''out.ico'') = Inr 12288"
  by (simp add: demo_run) (simp add: demo_pathlib_def)

text \<open>
  Claim C5, amended. A run that returns \<^verbatim>\<open>True\<close> has asked for the size of the written
  file, once, as its last call and right after \<^verbatim>\<open>save\<close>; the size \<open>n\<close> in bytes that
  the filesystem gives for the file is reported in the last line printed, as
  kilobytes with one decimal. The value returned is \<^verbatim>\<open>True\<close> alone.
\<close>

theorem file_size_reported:
  assumes "fst (create_icon S L P png ico w) = Inr True"
  shows "\<exists>n cs v vs.
           Path_stat_st_size P (files (snd (create_icon S L P png ico w))) (Path P ico) = Inr n
         \<and> stdout (snd (create_icon S L P png ico w))
             = stdout w @ [created_line ico, sizes_line, file_size_line n]
         \<and> calls (snd (create_icon S L P png ico w))
             = calls w @ cs @ [Save v ico ''ICO'' sizes vs, Stat (Path P ico)]
         \<and> Stat (Path P ico) \<notin> set cs"
proof -
  from assms have eq: "create_icon S L P png ico w = create_icon_try S L P png ico w"
    by (rule create_icon_True_world)
  with assms obtain w' where run: "create_icon_try S L P png ico w = (Inr True, w')"
    by (cases "create_icon_try S L P png ico w") auto
  from create_icon_try_Inr [OF run] obtain img0 img vs fs' n where
    st: "Path_stat_st_size P fs' (Path P ico) = Inr n"
    and w': "w' = w\<lparr>files := fs',
                  stdout := stdout w @ [created_line ico, sizes_line, file_size_line n],
                  calls := calls w @ Open png
                    # (if Image_mode L img0 \<noteq> ''RGBA'' then [Convert img0 ''RGBA''] else [])
                    @ map (\<lambda>sz. Resize img sz LANCZOS) sizes
                    @ [Save (hd vs) ico ''ICO'' sizes (tl vs), Stat (Path P ico)]\<rparr>"
    by blast
  let ?cs = "Open png # (if Image_mode L img0 \<noteq> ''RGBA'' then [Convert img0 ''RGBA''] else [])
                    @ map (\<lambda>sz. Resize img sz LANCZOS) sizes"
  have "Stat (Path P ico) \<notin> set ?cs" by auto
  moreover have "calls (snd (create_icon S L P png ico w))
             = calls w @ ?cs @ [Save (hd vs) ico ''ICO'' sizes (tl vs), Stat (Path P ico)]"
    unfolding eq run w' by simp
  moreover have "Path_stat_st_size P (files (snd (create_icon S L P png ico w))) (Path P ico) = Inr n"
    unfolding eq run w' using st by simp
  moreover have "stdout (snd (create_icon S L P png ico w))
             = stdout w @ [created_line ico, sizes_line, file_size_line n]"
    unfolding eq run w' by simp
  ultimately show ?thesis by blast
qed

theorem file_size_reported_witness:
  "fst (create_icon utf8_sys (demo_pil 1024 None) demo_pathlib ''logo.png'' ''out.ico'' demo_world) = Inr True
   \<and> Path_stat_st_size demo_pathlib
        (files (snd (create_icon utf8_sys (demo_pil 1024 None) demo_pathlib ''logo.png'' ''out.ico'' demo_world)))
        (Path demo_pathlib ''out.ico'') = Inr 6144
   \<and> last (stdout (snd (create_icon utf8_sys (demo_pil 1024 None) demo_pathlib ''logo.png'' ''out.ico''
        demo_world))) = ''   File size: 6.0 KB''
   \<and> last (calls (snd (create_icon utf8_sys (demo_pil 1024 None) demo_pathlib ''logo.png'' ''out.ico''
        demo_world))) = Stat ''out.ico''"
proof -
  let ?run = "create_icon utf8_sys (demo_pil 1024 None) demo_pathlib ''logo.png'' ''out.ico'' demo_world"
  have h: "fst ?run = Inr True" by (simp add: demo_run)
  have n: "Path_stat_st_size demo_pathlib (files (snd ?run)) (Path demo_pathlib ''out.ico'') = Inr 6144"
    by (simp add: demo_run) (simp add: demo_pathlib_def)
  have p: "Path demo_pathlib ''out.ico'' = ''out.ico''" by (simp add: demo_pathlib_def)
  have kb: "file_size_line 6144 = ''   File size: 6.0 KB''"
    by (simp add: file_size_line_def format_kb_def Let_def str_nat.simps digit_char_def)
  from file_size_reported [OF h] n
  have "last (stdout (snd ?run)) = file_size_line 6144" and "last (calls (snd ?run)) = Stat ''out.ico''"
    by (auto simp: p)
  with h n kb show ?thesis by simp
qed






text \<open>
  Claim C6, as the specification states it, fails: the handler's own \<^verbatim>\<open>print\<close> is not
  guarded. On a standard output that cannot encode the cross mark, the error of a
  source that cannot be decoded is caught, and the \<^verbatim>\<open>UnicodeEncodeError\<close> of the
  report then leaves \<^verbatim>\<open>create_icon\<close>: no boolean is returned.
\<close>

theorem error_leaves_create_icon:
  "create_icon ascii_sys (demo_pil 1024 None) demo_pathlib ''corrupt.png'' ''out.ico'' demo_world
     = (Inl (Exc ''ordinal not in range(128)''), demo_world\<lparr>calls := [Open ''corrupt.png'']\<rparr>)"
  by (simp add: create_icon_handler [OF demo_corrupt])
     (simp add: ascii_sys_def error_line_def cross_mark_def)

text \<open>
  Claim C6, amended. Every \<^verbatim>\<open>Exception\<close> raised in the conversion (by \<^verbatim>\<open>open\<close>, by
  \<^verbatim>\<open>convert\<close>, by any \<^verbatim>\<open>resize\<close>, by \<^verbatim>\<open>save\<close>, by \<^verbatim>\<open>stat\<close> or by a \<^verbatim>\<open>print\<close> of the
  body) reaches the one handler around the body, which prints the line
  \<^verbatim>\<open>Error creating icon\<close> with the cause and returns \<^verbatim>\<open>False\<close>, provided standard
  output takes that line. \<^verbatim>\<open>create_icon\<close> ends in one of three ways: it returns a
  boolean, or something outside \<^verbatim>\<open>Exception\<close> raised in the body goes on to the caller,
  or the handler's own \<^verbatim>\<open>print\<close> raises and that exception goes on to the caller.
\<close>

theorem errors_caught:
  "(fst (create_icon_try S L P png ico w) = Inl (Exc e)
      \<and> stdout_error S (stdout (snd (create_icon_try S L P png ico w))) (error_line e) = None
      \<longrightarrow> create_icon S L P png ico w =
           (Inr False,
            (snd (create_icon_try S L P png ico w))
              \<lparr>stdout := stdout (snd (create_icon_try S L P png ico w)) @ [error_line e]\<rparr>))
   \<and> ((\<exists>b. fst (create_icon S L P png ico w) = Inr b)
      \<or> (\<exists>x. fst (create_icon_try S L P png ico w) = Inl (NonExc x)
             \<and> fst (create_icon S L P png ico w) = Inl (NonExc x))
      \<or> (\<exists>c x. fst (create_icon_try S L P png ico w) = Inl (Exc c)
             \<and> stdout_error S (stdout (snd (create_icon_try S L P png ico w))) (error_line c) = Some x
             \<and> fst (create_icon S L P png ico w) = Inl x))
   \<and> (Image_open L (files w) png = Inl (Exc e)
      \<longrightarrow> fst (create_icon_try S L P png ico w) = Inl (Exc e))
   \<and> (Image_open L (files w) png = Inr img0
        \<and> Image_mode L img0 \<noteq> ''RGBA''
        \<and> Image_convert L img0 ''RGBA'' = Inl (Exc e)
      \<longrightarrow> fst (create_icon_try S L P png ico w) = Inl (Exc e))
   \<and> (Image_open L (files w) png = Inr img0
        \<and> (if Image_mode L img0 \<noteq> ''RGBA'' then Image_convert L img0 ''RGBA'' else Inr img0) = Inr img
        \<and> k < length sizes
        \<and> map (\<lambda>sz. Image_resize L img sz LANCZOS) (take k sizes) = map Inr rs
        \<and> Image_resize L img (sizes ! k) LANCZOS = Inl (Exc e)
      \<longrightarrow> fst (create_icon_try S L P png ico w) = Inl (Exc e))
   \<and> (Image_open L (files w) png = Inr img0
        \<and> (if Image_mode L img0 \<noteq> ''RGBA'' then Image_convert L img0 ''RGBA'' else Inr img0) = Inr img
        \<and> map (\<lambda>sz. Image_resize L img sz LANCZOS) sizes = map Inr vs
        \<and> Image_save L (files w) (hd vs) ico ''ICO'' sizes (tl vs) = (Inl (Exc e), fs')
      \<longrightarrow> fst (create_icon_try S L P png ico w) = Inl (Exc e))
   \<and> (Image_open L (files w) png = Inr img0
        \<and> (if Image_mode L img0 \<noteq> ''RGBA'' then Image_convert L img0 ''RGBA'' else Inr img0) = Inr img
        \<and> map (\<lambda>sz. Image_resize L img sz LANCZOS) sizes = map Inr vs
        \<and> Image_save L (files w) (hd vs) ico ''ICO'' sizes (tl vs) = (Inr (), fs')
        \<and> stdout_error S (stdout w) (created_line ico) = Some (Exc e)
      \<longrightarrow> fst (create_icon_try S L P png ico w) = Inl (Exc e))
   \<and> (Image_open L (files w) png = Inr img0
        \<and> (if Image_mode L img0 \<noteq> ''RGBA'' then Image_convert L img0 ''RGBA'' else Inr img0) = Inr img
        \<and> map (\<lambda>sz. Image_resize L img sz LANCZOS) sizes = map Inr vs
        \<and> Image_save L (files w) (hd vs) ico ''ICO'' sizes (tl vs) = (Inr (), fs')
        \<and> stdout_error S (stdout w) (created_line ico) = None
        \<and> stdout_error S (stdout w @ [created_line ico]) sizes_line = Some (Exc e)
      \<longrightarrow> fst (create_icon_try S L P png ico w) = Inl (Exc e))
   \<and> (Image_open L (files w) png = Inr img0
        \<and> (if Image_mode L img0 \<noteq> ''RGBA'' then Image_convert L img0 ''RGBA'' else Inr img0) = Inr img
        \<and> map (\<lambda>sz. Image_resize L img sz LANCZOS) sizes = map Inr vs
        \<and> Image_save L (files w) (hd vs) ico ''ICO'' sizes (tl vs) = (Inr (), fs')
        \<and> stdout_error S (stdout w) (created_line ico) = None
        \<and> stdout_error S (stdout w @ [created_line ico]) sizes_line = None
        \<and> Path_stat_st_size P fs' (Path P ico) = Inl (Exc e)
      \<longrightarrow> fst (create_icon_try S L P png ico w) = Inl (Exc e))
   \<and> (Image_open L (files w) png = Inr img0
        \<and> (if Image_mode L img0 \<noteq> ''RGBA'' then Image_convert L img0 ''RGBA'' else Inr img0) = Inr img
        \<and> map (\<lambda>sz. Image_resize L img sz LANCZOS) sizes = map Inr vs
        \<and> Image_save L (files w) (hd vs) ico ''ICO'' sizes (tl vs) = (Inr (), fs')
        \<and> stdout_error S (stdout w) (created_line ico) = None
        \<and> stdout_error S (stdout w @ [created_line ico]) sizes_line = None
        \<and> Path_stat_st_size P fs' (Path P ico) = Inr n
        \<and> stdout_error S (stdout w @ [created_line ico, sizes_line]) (file_size_line n) = Some (Exc e)
      \<longrightarrow> fst (create_icon_try S L P png ico w) = Inl (Exc e))"
proof (intro conjI impI; (elim conjE)?)
  assume "fst (create_icon_try S L P png ico w) = Inl (Exc e)"
    and "stdout_error S (stdout (snd (create_icon_try S L P png ico w))) (error_line e) = None"
  then show "create_icon S L P png ico w =
           (Inr False,
            (snd (create_icon_try S L P png ico w))
              \<lparr>stdout := stdout (snd (create_icon_try S L P png ico w)) @ [error_line e]\<rparr>)"
    using create_icon_handler [of S L P png ico w e "snd (create_icon_try S L P png ico w)"]
    by (cases "create_icon_try S L P png ico w") simp
next
  show "(\<exists>b. fst (create_icon S L P png ico w) = Inr b)
      \<or> (\<exists>x. fst (create_icon_try S L P png ico w) = Inl (NonExc x)
             \<and> fst (create_icon S L P png ico w) = Inl (NonExc x))
      \<or> (\<exists>c x. fst (create_icon_try S L P png ico w) = Inl (Exc c)
             \<and> stdout_error S (stdout (snd (create_icon_try S L P png ico w))) (error_line c) = Some x
             \<and> fst (create_icon S L P png ico w) = Inl x)"
    by (rule create_icon_trichotomy)
next
  assume "Image_open L (files w) png = Inl (Exc e)"
  then show "fst (create_icon_try S L P png ico w) = Inl (Exc e)"
    by (simp add: create_icon_try_open_fails)
next
  assume "Image_open L (files w) png = Inr img0"
    "Image_mode L img0 \<noteq> ''RGBA''"
    "Image_convert L img0 ''RGBA'' = Inl (Exc e)"
  then show "fst (create_icon_try S L P png ico w) = Inl (Exc e)"
    by (simp add: create_icon_try_convert_fails)
next
  assume "Image_open L (files w) png = Inr img0"
    "(if Image_mode L img0 \<noteq> ''RGBA'' then Image_convert L img0 ''RGBA'' else Inr img0) = Inr img"
    "k < length sizes"
    "map (\<lambda>sz. Image_resize L img sz LANCZOS) (take k sizes) = map Inr rs"
    "Image_resize L img (sizes ! k) LANCZOS = Inl (Exc e)"
  then show "fst (create_icon_try S L P png ico w) = Inl (Exc e)"
    by (simp add: create_icon_try_resize_fails)
next
  assume "Image_open L (files w) png = Inr img0"
    "(if Image_mode L img0 \<noteq> ''RGBA'' then Image_convert L img0 ''RGBA'' else Inr img0) = Inr img"
    "map (\<lambda>sz. Image_resize L img sz LANCZOS) sizes = map Inr vs"
    "Image_save L (files w) (hd vs) ico ''ICO'' sizes (tl vs) = (Inl (Exc e), fs')"
  then show "fst (create_icon_try S L P png ico w) = Inl (Exc e)"
    by (simp add: create_icon_try_resized [of L w png img0 img vs S P ico] Let_def)
next
  assume "Image_open L (files w) png = Inr img0"
    "(if Image_mode L img0 \<noteq> ''RGBA'' then Image_convert L img0 ''RGBA'' else Inr img0) = Inr img"
    "map (\<lambda>sz. Image_resize L img sz LANCZOS) sizes = map Inr vs"
    "Image_save L (files w) (hd vs) ico ''ICO'' sizes (tl vs) = (Inr (), fs')"
    "stdout_error S (stdout w) (created_line ico) = Some (Exc e)"
  then show "fst (create_icon_try S L P png ico w) = Inl (Exc e)"
    by (simp add: create_icon_try_resized [of L w png img0 img vs S P ico] Let_def)
next
  assume "Image_open L (files w) png = Inr img0"
    "(if Image_mode L img0 \<noteq> ''RGBA'' then Image_convert L img0 ''RGBA'' else Inr img0) = Inr img"
    "map (\<lambda>sz. Image_resize L img sz LANCZOS) sizes = map Inr vs"
    "Image_save L (files w) (hd vs) ico ''ICO'' sizes (tl vs) = (Inr (), fs')"
    "stdout_error S (stdout w) (created_line ico) = None"
    "stdout_error S (stdout w @ [created_line ico]) sizes_line = Some (Exc e)"
  then show "fst (create_icon_try S L P png ico w) = Inl (Exc e)"
    by (simp add: create_icon_try_resized [of L w png img0 img vs S P ico] Let_def)
next
  assume "Image_open L (files w) png = Inr img0"
    "(if Image_mode L img0 \<noteq> ''RGBA'' then Image_convert L img0 ''RGBA'' else Inr img0) = Inr img"
    "map (\<lambda>sz. Image_resize L img sz LANCZOS) sizes = map Inr vs"
    "Image_save L (files w) (hd vs) ico ''ICO'' sizes (tl vs) = (Inr (), fs')"
    "stdout_error S (stdout w) (created_line ico) = None"
    "stdout_error S (stdout w @ [created_line ico]) sizes_line = None"
    "Path_stat_st_size P fs' (Path P ico) = Inl (Exc e)"
  then show "fst (create_icon_try S L P png ico w) = Inl (Exc e)"
    by (simp add: create_icon_try_resized [of L w png img0 img vs S P ico] Let_def)
next
  assume "Image_open L (files w) png = Inr img0"
    "(if Image_mode L img0 \<noteq> ''RGBA'' then Image_convert L img0 ''RGBA'' else Inr img0) = Inr img"
    "map (\<lambda>sz. Image_resize L img sz LANCZOS) sizes = map Inr vs"
    "Image_save L (files w) (hd vs) ico ''ICO'' sizes (tl vs) = (Inr (), fs')"
    "stdout_error S (stdout w) (created_line ico) = None"
    "stdout_error S (stdout w @ [created_line ico]) sizes_line = None"
    "Path_stat_st_size P fs' (Path P ico) = Inr n"
    "stdout_error S (stdout w @ [created_line ico, sizes_line]) (file_size_line n) = Some (Exc e)"
  then show "fst (create_icon_try S L P png ico w) = Inl (Exc e)"
    by (simp add: create_icon_try_resized [of L w png img0 img vs S P ico] Let_def)
qed

theorem errors_caught_witness:
  "fst (create_icon_try utf8_sys (demo_pil 1024 (Some ''disk full'')) demo_pathlib ''logo.png''
          ''out.ico'' demo_world) = Inl (Exc ''disk full'')
   \<and> fst (create_icon utf8_sys (demo_pil 1024 (Some ''disk full'')) demo_pathlib ''logo.png''
            ''out.ico'' demo_world) = Inr False
   \<and> stdout (snd (create_icon utf8_sys (demo_pil 1024 (Some ''disk full'')) demo_pathlib ''logo.png''
            ''out.ico'' demo_world)) = [error_line ''disk full'']
   \<and> Image_open (demo_pil 1024 None) (files demo_world) ''corrupt.png''
       = Inl (Exc ''cannot identify image file'')
   \<and> fst (create_icon_try utf8_sys (demo_pil 1024 None) demo_pathlib ''corrupt.png'' ''out.ico''
          demo_world) = Inl (Exc ''cannot identify image file'')"
proof -
  let ?bad = "demo_pil 1024 (Some ''disk full'')"
  let ?body = "create_icon_try utf8_sys ?bad demo_pathlib ''logo.png'' ''out.ico'' demo_world"
  have h1: "fst ?body = Inl (Exc ''disk full'')"
    by (simp add: demo_save_fails)
  have out: "stdout (snd ?body) = []"
    by (simp add: demo_save_fails) (simp add: demo_world_def)
  have h2: "stdout_error utf8_sys (stdout (snd ?body)) (error_line ''disk full'') = None"
    by (simp add: utf8_sys_def)
  from errors_caught [of utf8_sys ?bad demo_pathlib "''logo.png''" "''out.ico''" demo_world
      "''disk full''"] h1 h2
  have caught: "create_icon utf8_sys ?bad demo_pathlib ''logo.png'' ''out.ico'' demo_world
                  = (Inr False, (snd ?body)\<lparr>stdout := stdout (snd ?body) @ [error_line ''disk full'']\<rparr>)"
    by blast
  have h3: "Image_open (demo_pil 1024 None) (files demo_world) ''corrupt.png''
       = Inl (Exc ''cannot identify image file'')"
    by (simp add: demo_pil_def demo_world_def)
  from errors_caught [of utf8_sys "demo_pil 1024 None" demo_pathlib "''corrupt.png''" "''out.ico''"
      demo_world "''cannot identify image file''"] h3
  have stage: "fst (create_icon_try utf8_sys (demo_pil 1024 None) demo_pathlib ''corrupt.png''
          ''out.ico'' demo_world) = Inl (Exc ''cannot identify image file'')"
    by blast
  from h1 h3 stage show ?thesis
    by (simp add: caught out)
qed

text \<open>
  Claim C4, as the specification states it, fails: the script has one handler for every
  error of the conversion and attaches no kind to a failure. A source that cannot be
  decoded and a file that cannot be written, failing with the same cause, return the
  same value and print the same line. And where standard output cannot encode the
  cross mark, a source that cannot be decoded gives no failure value at all: the
  error of the report leaves \<^verbatim>\<open>create_icon\<close>.
\<close>

theorem decode_failure_not_distinct:
  "Image_open (demo_pil 1024 None) (files demo_world) ''corrupt.png''
     = Inl (Exc ''cannot identify image file'')
   \<and> fst (Image_save (demo_pil 1024 (Some ''cannot identify image file'')) (files demo_world)
        (Picture ''RGBA'' (256, 256)) ''out.ico'' ''ICO'' sizes
        (map (Picture ''RGBA'') [(128, 128), (64, 64), (48, 48), (32, 32), (16, 16)]))
     = Inl (Exc ''cannot identify image file'')
   \<and> fst (create_icon utf8_sys (demo_pil 1024 None) demo_pathlib ''corrupt.png'' ''out.ico''
            demo_world)
     = fst (create_icon utf8_sys (demo_pil 1024 (Some ''cannot identify image file'')) demo_pathlib
              ''logo.png'' ''out.ico'' demo_world)
   \<and> stdout (snd (create_icon utf8_sys (demo_pil 1024 None) demo_pathlib ''corrupt.png''
                     ''out.ico'' demo_world))
     = stdout (snd (create_icon utf8_sys (demo_pil 1024 (Some ''cannot identify image file''))
                     demo_pathlib ''logo.png'' ''out.ico'' demo_world))
   \<and> fst (create_icon ascii_sys (demo_pil 1024 None) demo_pathlib ''corrupt.png'' ''out.ico''
            demo_world)
     = Inl (Exc ''ordinal not in range(128)'')"
proof -
  have a: "Image_open (demo_pil 1024 None) (files demo_world) ''corrupt.png''
     = Inl (Exc ''cannot identify image file'')"
    by (simp add: demo_pil_def demo_world_def)
  have b: "fst (Image_save (demo_pil 1024 (Some ''cannot identify image file'')) (files demo_world)
        (Picture ''RGBA'' (256, 256)) ''out.ico'' ''ICO'' sizes
        (map (Picture ''RGBA'') [(128, 128), (64, 64), (48, 48), (32, 32), (16, 16)]))
     = Inl (Exc ''cannot identify image file'')"
    by (simp add: demo_pil_def)
  have d: "stdout demo_world = []" by (simp add: demo_world_def)
  have u: "stdout_error utf8_sys out s = None" for out s by (simp add: utf8_sys_def)
  have c: "fst (create_icon utf8_sys (demo_pil 1024 None) demo_pathlib ''corrupt.png'' ''out.ico''
            demo_world)
     = fst (create_icon utf8_sys (demo_pil 1024 (Some ''cannot identify image file'')) demo_pathlib
              ''logo.png'' ''out.ico'' demo_world)"
    "stdout (snd (create_icon utf8_sys (demo_pil 1024 None) demo_pathlib ''corrupt.png''
                     ''out.ico'' demo_world))
     = stdout (snd (create_icon utf8_sys (demo_pil 1024 (Some ''cannot identify image file''))
                     demo_pathlib ''logo.png'' ''out.ico'' demo_world))"
    by (simp_all add: create_icon_handler [OF demo_corrupt] create_icon_handler [OF demo_save_fails] u)
  have e: "fst (create_icon ascii_sys (demo_pil 1024 None) demo_pathlib ''corrupt.png'' ''out.ico''
            demo_world) = Inl (Exc ''ordinal not in range(128)'')"
    by (simp add: create_icon_handler [OF demo_corrupt])
       (simp add: ascii_sys_def error_line_def cross_mark_def)
  from a b c e show ?thesis by blast
qed

text \<open>
  Claim C4, amended. When the source cannot be decoded, wherever Pillow finds it out
  (\<^verbatim>\<open>Image.open\<close> raises, or the file opens and \<^verbatim>\<open>convert\<close> or a \<^verbatim>\<open>resize\<close> raises
  when the pixels are read), \<^verbatim>\<open>create_icon\<close> makes no further call: \<^verbatim>\<open>save\<close> is never
  reached and the files are as they were. It prints the one line
  \<^verbatim>\<open>Error creating icon\<close> with the cause and returns \<^verbatim>\<open>False\<close>, provided standard
  output takes that line; otherwise the error of that \<^verbatim>\<open>print\<close> leaves
  \<^verbatim>\<open>create_icon\<close>. The report is the general one: a \<^verbatim>\<open>save\<close> that raises is reported
  by the same line and the same \<^verbatim>\<open>False\<close>, with its own cause.
\<close>

theorem decode_failure_reported:
  "(Image_open L (files w) png = Inl (Exc cause)
      \<longrightarrow> create_icon S L P png ico w =
          (case stdout_error S (stdout w) (error_line cause) of
             None \<Rightarrow> (Inr False, w\<lparr>stdout := stdout w @ [error_line cause], calls := calls w @ [Open png]\<rparr>)
           | Some x \<Rightarrow> (Inl x, w\<lparr>calls := calls w @ [Open png]\<rparr>)))
   \<and> (Image_open L (files w) png = Inr img0
        \<and> Image_mode L img0 \<noteq> ''RGBA''
        \<and> Image_convert L img0 ''RGBA'' = Inl (Exc cause)
      \<longrightarrow> create_icon S L P png ico w =
          (case stdout_error S (stdout w) (error_line cause) of
             None \<Rightarrow> (Inr False, w\<lparr>stdout := stdout w @ [error_line cause], calls := calls w @ [Open png, Convert img0 ''RGBA'']\<rparr>)
           | Some x \<Rightarrow> (Inl x, w\<lparr>calls := calls w @ [Open png, Convert img0 ''RGBA'']\<rparr>)))
   \<and> (Image_open L (files w) png = Inr img0
        \<and> (if Image_mode L img0 \<noteq> ''RGBA'' then Image_convert L img0 ''RGBA'' else Inr img0) = Inr img
        \<and> k < length sizes
        \<and> map (\<lambda>sz. Image_resize L img sz LANCZOS) (take k sizes) = map Inr rs
        \<and> Image_resize L img (sizes ! k) LANCZOS = Inl (Exc cause)
      \<longrightarrow> create_icon S L P png ico w =
          (case stdout_error S (stdout w) (error_line cause) of
             None \<Rightarrow> (Inr False, w\<lparr>stdout := stdout w @ [error_line cause], calls := calls w @ Open png # (if Image_mode L img0 \<noteq> ''RGBA'' then [Convert img0 ''RGBA''] else [])
                   @ map (\<lambda>sz. Resize img sz LANCZOS) (take (Suc k) sizes)\<rparr>)
           | Some x \<Rightarrow> (Inl x, w\<lparr>calls := calls w @ Open png # (if Image_mode L img0 \<noteq> ''RGBA'' then [Convert img0 ''RGBA''] else [])
                   @ map (\<lambda>sz. Resize img sz LANCZOS) (take (Suc k) sizes)\<rparr>)))
   \<and> (Image_open L (files w) png = Inr img0
        \<and> (if Image_mode L img0 \<noteq> ''RGBA'' then Image_convert L img0 ''RGBA'' else Inr img0) = Inr img
        \<and> map (\<lambda>sz. Image_resize L img sz LANCZOS) sizes = map Inr vs
        \<and> Image_save L (files w) (hd vs) ico ''ICO'' sizes (tl vs) = (Inl (Exc cause), fs')
      \<longrightarrow> create_icon S L P png ico w =
          (case stdout_error S (stdout w) (error_line cause) of
             None \<Rightarrow> (Inr False, w\<lparr>files := fs', stdout := stdout w @ [error_line cause], calls := calls w @ Open png # (if Image_mode L img0 \<noteq> ''RGBA'' then [Convert img0 ''RGBA''] else [])
                   @ map (\<lambda>sz. Resize img sz LANCZOS) sizes
                   @ [Save (hd vs) ico ''ICO'' sizes (tl vs)]\<rparr>)
           | Some x \<Rightarrow> (Inl x, w\<lparr>files := fs', calls := calls w @ Open png # (if Image_mode L img0 \<noteq> ''RGBA'' then [Convert img0 ''RGBA''] else [])
                   @ map (\<lambda>sz. Resize img sz LANCZOS) sizes
                   @ [Save (hd vs) ico ''ICO'' sizes (tl vs)]\<rparr>)))"
proof (intro conjI impI; (elim conjE)?)
  assume a: "Image_open L (files w) png = Inl (Exc cause)"
  show "create_icon S L P png ico w =
          (case stdout_error S (stdout w) (error_line cause) of
             None \<Rightarrow> (Inr False, w\<lparr>stdout := stdout w @ [error_line cause], calls := calls w @ [Open png]\<rparr>)
           | Some x \<Rightarrow> (Inl x, w\<lparr>calls := calls w @ [Open png]\<rparr>))"
    by (simp add: create_icon_handler [OF create_icon_try_open_fails [OF a]] split: option.splits)
next
  assume a: "Image_open L (files w) png = Inr img0"
    "Image_mode L img0 \<noteq> ''RGBA''"
    "Image_convert L img0 ''RGBA'' = Inl (Exc cause)"
  show "create_icon S L P png ico w =
          (case stdout_error S (stdout w) (error_line cause) of
             None \<Rightarrow> (Inr False, w\<lparr>stdout := stdout w @ [error_line cause], calls := calls w @ [Open png, Convert img0 ''RGBA'']\<rparr>)
           | Some x \<Rightarrow> (Inl x, w\<lparr>calls := calls w @ [Open png, Convert img0 ''RGBA'']\<rparr>))"
    by (simp add: create_icon_handler [OF create_icon_try_convert_fails [OF a]] split: option.splits)
next
  assume a: "Image_open L (files w) png = Inr img0"
    "(if Image_mode L img0 \<noteq> ''RGBA'' then Image_convert L img0 ''RGBA'' else Inr img0) = Inr img"
    "k < length sizes"
    "map (\<lambda>sz. Image_resize L img sz LANCZOS) (take k sizes) = map Inr rs"
    "Image_resize L img (sizes ! k) LANCZOS = Inl (Exc cause)"
  show "create_icon S L P png ico w =
          (case stdout_error S (stdout w) (error_line cause) of
             None \<Rightarrow> (Inr False, w\<lparr>stdout := stdout w @ [error_line cause], calls := calls w @ Open png # (if Image_mode L img0 \<noteq> ''RGBA'' then [Convert img0 ''RGBA''] else [])
                   @ map (\<lambda>sz. Resize img sz LANCZOS) (take (Suc k) sizes)\<rparr>)
           | Some x \<Rightarrow> (Inl x, w\<lparr>calls := calls w @ Open png # (if Image_mode L img0 \<noteq> ''RGBA'' then [Convert img0 ''RGBA''] else [])
                   @ map (\<lambda>sz. Resize img sz LANCZOS) (take (Suc k) sizes)\<rparr>))"
    by (simp add: create_icon_handler [OF create_icon_try_resize_fails [OF a]] split: option.splits)
next
  assume a: "Image_open L (files w) png = Inr img0"
    "(if Image_mode L img0 \<noteq> ''RGBA'' then Image_convert L img0 ''RGBA'' else Inr img0) = Inr img"
    "map (\<lambda>sz. Image_resize L img sz LANCZOS) sizes = map Inr vs"
    "Image_save L (files w) (hd vs) ico ''ICO'' sizes (tl vs) = (Inl (Exc cause), fs')"
  show "create_icon S L P png ico w =
          (case stdout_error S (stdout w) (error_line cause) of
             None \<Rightarrow> (Inr False, w\<lparr>files := fs', stdout := stdout w @ [error_line cause], calls := calls w @ Open png # (if Image_mode L img0 \<noteq> ''RGBA'' then [Convert img0 ''RGBA''] else [])
                   @ map (\<lambda>sz. Resize img sz LANCZOS) sizes
                   @ [Save (hd vs) ico ''ICO'' sizes (tl vs)]\<rparr>)
           | Some x \<Rightarrow> (Inl x, w\<lparr>files := fs', calls := calls w @ Open png # (if Image_mode L img0 \<noteq> ''RGBA'' then [Convert img0 ''RGBA''] else [])
                   @ map (\<lambda>sz. Resize img sz LANCZOS) sizes
                   @ [Save (hd vs) ico ''ICO'' sizes (tl vs)]\<rparr>))"
    by (simp add: create_icon_handler [OF create_icon_try_save_fails [OF a]] split: option.splits)
qed

theorem decode_failure_reported_witness:
  "Image_open (demo_pil 1024 None) (files demo_world) ''corrupt.png''
     = Inl (Exc ''cannot identify image file'')
   \<and> create_icon utf8_sys (demo_pil 1024 None) demo_pathlib ''corrupt.png'' ''out.ico'' demo_world =
       (Inr False, demo_world\<lparr>stdout := stdout demo_world @ [error_line ''cannot identify image file''],
                    calls := calls demo_world @ [Open ''corrupt.png'']\<rparr>)
   \<and> Image_open lazy_pil (files demo_world) ''corrupt.png'' = Inr (Picture ''RGB'' (512, 512))
   \<and> Image_convert lazy_pil (Picture ''RGB'' (512, 512)) ''RGBA'' = Inl (Exc ''image file is truncated'')
   \<and> create_icon utf8_sys lazy_pil demo_pathlib ''corrupt.png'' ''out.ico'' demo_world =
       (Inr False, demo_world\<lparr>stdout := stdout demo_world @ [error_line ''image file is truncated''],
                    calls := calls demo_world
                      @ [Open ''corrupt.png'', Convert (Picture ''RGB'' (512, 512)) ''RGBA'']\<rparr>)"
proof -
  have u: "stdout_error utf8_sys out s = None" for out s by (simp add: utf8_sys_def)
  have a: "Image_open (demo_pil 1024 None) (files demo_world) ''corrupt.png''
     = Inl (Exc ''cannot identify image file'')"
    by (simp add: demo_pil_def demo_world_def)
  from decode_failure_reported [of "demo_pil 1024 None" demo_world "''corrupt.png''"
      "''cannot identify image file''" utf8_sys demo_pathlib "''out.ico''"] a
  have c: "create_icon utf8_sys (demo_pil 1024 None) demo_pathlib ''corrupt.png'' ''out.ico'' demo_world =
       (Inr False, demo_world\<lparr>stdout := stdout demo_world @ [error_line ''cannot identify image file''],
                    calls := calls demo_world @ [Open ''corrupt.png'']\<rparr>)"
    by (simp add: u)
  have l1: "Image_open lazy_pil (files demo_world) ''corrupt.png'' = Inr (Picture ''RGB'' (512, 512))"
    by (simp add: lazy_pil_def demo_world_def)
  have l2: "Image_mode lazy_pil (Picture ''RGB'' (512, 512)) \<noteq> ''RGBA''"
    by (simp add: lazy_pil_def demo_pil_def)
  have l3: "Image_convert lazy_pil (Picture ''RGB'' (512, 512)) ''RGBA''
              = Inl (Exc ''image file is truncated'')"
    by (simp add: lazy_pil_def)
  from decode_failure_reported [of lazy_pil demo_world "''corrupt.png''"
      "''image file is truncated''" utf8_sys demo_pathlib "''out.ico''" "Picture ''RGB'' (512, 512)"]
    l1 l2 l3
  have d: "create_icon utf8_sys lazy_pil demo_pathlib ''corrupt.png'' ''out.ico'' demo_world =
       (Inr False, demo_world\<lparr>stdout := stdout demo_world @ [error_line ''image file is truncated''],
                    calls := calls demo_world
                      @ [Open ''corrupt.png'', Convert (Picture ''RGB'' (512, 512)) ''RGBA'']\<rparr>)"
    by (simp add: u)
  from a c l1 l3 d show ?thesis by blast
qed

end
